theory Spec2Isabelle
  imports
    Complex_Main
    "HOL-Library.Sublist"
    "HOL-Library.AList"
    "HOL-Library.Char_ord"
    "HOL-Library.List_Lexorder"
    "HOL-Library.Product_Lexorder"
begin

section \<open>The emotion dataset server (server.py)\<close>

text \<open>
  A shallow embedding of \<^verbatim>\<open>server.py\<close>: the lazily loaded dataset, the three pydantic
  input models and the four tools. Conventions of the model:
  \<^item> a Python \<^verbatim>\<open>str\<close> is a \<^typ>\<open>string\<close>, one \<^typ>\<open>char\<close> per code point (code points
    0 to 255; the dataset is English text);
  \<^item> a Python \<^verbatim>\<open>int\<close> is an \<^typ>\<open>int\<close>;
  \<^item> a raised exception is a value of \<open>py_exn\<close>, held in \<open>Inl\<close>;
  \<^item> the module global \<^verbatim>\<open>DATASET\<close> is a field of the explicit state \<open>world\<close>;
  \<^item> the tools return the payload that \<^verbatim>\<open>json.dumps\<close> serialises, as a value of
    \<open>response\<close>: \<open>Error_payload\<close> is the dictionary \<^verbatim>\<open>{"error": message}\<close>;
  \<^item> the three library calls the module makes and does not define are parameters:
    \<^verbatim>\<open>load_dataset\<close> (the outcome of each attempt), \<^verbatim>\<open>random.sample\<close> (the list it
    draws) and the floating-point operations of the percentage.
\<close>

subsection \<open>Exceptions, payloads\<close>

datatype py_exn =
    KeyError_int int          \<comment> \<open>\<^verbatim>\<open>EMOTION_LABELS[k]\<close> with \<open>k\<close> not a key\<close>
  | KeyError_str string       \<comment> \<open>\<^verbatim>\<open>emotion_counts[name]\<close> with \<open>name\<close> not a key\<close>
  | IndexError                \<comment> \<open>\<^verbatim>\<open>dataset[idx]\<close> out of range\<close>
  | ValidationError "string list"  \<comment> \<open>pydantic: the fields that failed\<close>
  | External string           \<comment> \<open>raised by a library call; the string is \<^verbatim>\<open>str(e)\<close>\<close>

datatype error_message =
    Failed string py_exn      \<comment> \<open>\<^verbatim>\<open>f"{prefix}{str(e)}"\<close>\<close>
  | Unknown_emotion string    \<comment> \<open>\<^verbatim>\<open>f"Unknown emotion: {params.emotion}"\<close>\<close>

datatype 'a response =
    Error_payload error_message   \<comment> \<open>\<^verbatim>\<open>json.dumps({"error": message})\<close>\<close>
  | Result 'a                     \<comment> \<open>\<^verbatim>\<open>json.dumps(result)\<close>\<close>

text \<open>What a call expression does: it raises, or it returns a value.\<close>

datatype 'a outcome = Raised py_exn | Returned 'a

subsection \<open>Records, the label mapping\<close>

record Record =
  item_text :: string     \<comment> \<open>\<^verbatim>\<open>item["text"]\<close>\<close>
  item_label :: int       \<comment> \<open>\<^verbatim>\<open>item["label"]\<close>\<close>

datatype EmotionType = SADNESS | JOY | LOVE | ANGER | FEAR | SURPRISE

fun emotion_value :: "EmotionType \<Rightarrow> string" where
  "emotion_value SADNESS = ''sadness''"
| "emotion_value JOY = ''joy''"
| "emotion_value LOVE = ''love''"
| "emotion_value ANGER = ''anger''"
| "emotion_value FEAR = ''fear''"
| "emotion_value SURPRISE = ''surprise''"

text \<open>The members of the enum in declaration order; \<^verbatim>\<open>EmotionType(s)\<close> looks \<open>s\<close> up
  among their values.\<close>

definition EmotionType_members :: "EmotionType list" where
  "EmotionType_members = [SADNESS, JOY, LOVE, ANGER, FEAR, SURPRISE]"

definition EmotionType_of_value :: "string \<Rightarrow> EmotionType option" where
  "EmotionType_of_value s = find (\<lambda>m. emotion_value m = s) EmotionType_members"

text \<open>The dictionary \<^verbatim>\<open>EMOTION_LABELS\<close>, in insertion order.\<close>

definition EMOTION_LABELS :: "(int \<times> string) list" where
  "EMOTION_LABELS =
     [(0, ''sadness''), (1, ''joy''), (2, ''love''), (3, ''anger''), (4, ''fear''),
      (5, ''surprise'')]"

text \<open>\<^verbatim>\<open>EMOTION_LABELS[k]\<close>\<close>

definition EMOTION_LABELS_getitem :: "int \<Rightarrow> py_exn + string" where
  "EMOTION_LABELS_getitem k =
     (case map_of EMOTION_LABELS k of None \<Rightarrow> Inl (KeyError_int k) | Some name \<Rightarrow> Inr name)"

subsection \<open>The dataset cache\<close>

text \<open>
  \<open>DATASET\<close> is the module global. \<open>loads\<close> is a ghost counter of the calls of the
  library's \<^verbatim>\<open>load_dataset\<close> made so far; the parameter \<open>ld\<close> gives the outcome of
  each such call by its number.
\<close>

record world =
  DATASET :: "Record list option"
  loads :: nat

type_synonym loader = "nat \<Rightarrow> py_exn + Record list"

definition initial_world :: world where
  "initial_world = \<lparr>DATASET = None, loads = 0\<rparr>"

text \<open>\<^verbatim>\<open>_load_dataset()\<close>\<close>

definition p_load_dataset :: "loader \<Rightarrow> world \<Rightarrow> (py_exn + Record list) \<times> world" where
  "p_load_dataset ld w =
     (case DATASET w of
        None \<Rightarrow>
          (case ld (loads w) of
             Inl e \<Rightarrow> (Inl e, w\<lparr>loads := loads w + 1\<rparr>)
           | Inr d \<Rightarrow> (Inr d, w\<lparr>DATASET := Some d, loads := loads w + 1\<rparr>))
      | Some d \<Rightarrow> (Inr d, w))"

subsection \<open>Input models\<close>

text \<open>
  \<^verbatim>\<open>str_strip_whitespace\<close>: pydantic trims the white space at both ends of a string
  field before it checks the length. White space here is the Unicode property
  \<^verbatim>\<open>White_Space\<close>, on the code points below 256.
\<close>

definition is_whitespace :: "char \<Rightarrow> bool" where
  "is_whitespace c =
     (let k = (of_char c :: nat) in (9 \<le> k \<and> k \<le> 13) \<or> k = 32 \<or> k = 133 \<or> k = 160)"

definition strip :: "string \<Rightarrow> string" where
  "strip s = rev (dropWhile is_whitespace (rev (dropWhile is_whitespace s)))"

record GetSampleInput =
  gs_n :: int

record CountByEmotionInput =
  ce_emotion :: EmotionType

record SearchTextInput =
  st_query :: string
  st_limit :: int

text \<open>\<^verbatim>\<open>GetSampleInput(n=n)\<close>: \<^verbatim>\<open>ge=1, le=100\<close>\<close>

definition GetSampleInput_init :: "int \<Rightarrow> py_exn + GetSampleInput" where
  "GetSampleInput_init n =
     (if n < 1 \<or> n > 100 then Inl (ValidationError [''n''])
      else Inr \<lparr>gs_n = n\<rparr>)"

text \<open>\<^verbatim>\<open>CountByEmotionInput(emotion=s)\<close>\<close>

definition CountByEmotionInput_init :: "string \<Rightarrow> py_exn + CountByEmotionInput" where
  "CountByEmotionInput_init s =
     (case EmotionType_of_value s of
        None \<Rightarrow> Inl (ValidationError [''emotion''])
      | Some e \<Rightarrow> Inr \<lparr>ce_emotion = e\<rparr>)"

text \<open>\<^verbatim>\<open>SearchTextInput(query=q, limit=l)\<close>: the query is stripped, then
  \<^verbatim>\<open>min_length=1, max_length=200\<close>; the limit has \<^verbatim>\<open>ge=1, le=100\<close>. Every failing
  field is reported.\<close>

definition SearchTextInput_init :: "string \<Rightarrow> int \<Rightarrow> py_exn + SearchTextInput" where
  "SearchTextInput_init q l =
     (let q' = strip q;
          bad = (if length q' < 1 \<or> length q' > 200 then [''query''] else [])
              @ (if l < 1 \<or> l > 100 then [''limit''] else [])
      in if bad \<noteq> [] then Inl (ValidationError bad)
         else Inr \<lparr>st_query = q', st_limit = l\<rparr>)"

subsection \<open>Floating point\<close>

text \<open>
  The percentage is computed in floating point. The three operations it uses are
  parameters: \<open>fl_truediv a b\<close> is \<^verbatim>\<open>a / b\<close> on two ints, \<open>fl_mul x k\<close> is \<^verbatim>\<open>x * k\<close> for
  a float and an int, \<open>fl_round x d\<close> is \<^verbatim>\<open>round(x, d)\<close>.
\<close>

record 'f float_ops =
  fl_truediv :: "int \<Rightarrow> int \<Rightarrow> 'f"
  fl_mul :: "'f \<Rightarrow> int \<Rightarrow> 'f"
  fl_round :: "'f \<Rightarrow> int \<Rightarrow> 'f"

datatype 'f pynum = PyInt int | PyFloat 'f

text \<open>\<^verbatim>\<open>round((count / total * 100), 2) if total > 0 else 0\<close>\<close>

definition percentage :: "'f float_ops \<Rightarrow> int \<Rightarrow> int \<Rightarrow> 'f pynum" where
  "percentage fo cnt tot =
     (if tot > 0 then PyFloat (fl_round fo (fl_mul fo (fl_truediv fo cnt tot) 100) 2)
      else PyInt 0)"

text \<open>Exact rational arithmetic with rounding half to even: an instance of the
  operations to evaluate examples with.\<close>

definition round_half_even :: "rat \<Rightarrow> int" where
  "round_half_even y =
     (let f = \<lfloor>y\<rfloor>; r = y - of_int f
      in if r < 1 / 2 then f else if r > 1 / 2 then f + 1 else if even f then f else f + 1)"

definition exact_ops :: "rat float_ops" where
  "exact_ops =
     \<lparr>fl_truediv = (\<lambda>a b. of_int a / of_int b),
      fl_mul = (\<lambda>x k. x * of_int k),
      fl_round = (\<lambda>x d. of_int (round_half_even (x * 10 ^ nat d)) / 10 ^ nat d)\<rparr>"

subsection \<open>Tool 1: get\_sample\<close>

record sample =
  s_text :: string
  s_emotion :: string
  s_label_id :: int

text \<open>\<^verbatim>\<open>dataset[idx]\<close>\<close>

definition dataset_getitem :: "Record list \<Rightarrow> nat \<Rightarrow> py_exn + Record" where
  "dataset_getitem dataset idx =
     (if idx < length dataset then Inr (dataset ! idx) else Inl IndexError)"

text \<open>The dictionary built for one item; the lookup in \<^verbatim>\<open>EMOTION_LABELS\<close> may raise.\<close>

definition make_sample :: "Record \<Rightarrow> py_exn + sample" where
  "make_sample item =
     (case EMOTION_LABELS_getitem (item_label item) of
        Inl e \<Rightarrow> Inl e
      | Inr name \<Rightarrow>
          Inr \<lparr>s_text = item_text item, s_emotion = name, s_label_id = item_label item\<rparr>)"

text \<open>\<^verbatim>\<open>for idx in indices: ... samples.append(...)\<close>\<close>

fun get_sample_loop :: "Record list \<Rightarrow> nat list \<Rightarrow> sample list \<Rightarrow> py_exn + sample list" where
  "get_sample_loop dataset [] samples = Inr samples"
| "get_sample_loop dataset (idx # indices) samples =
     (case dataset_getitem dataset idx of
        Inl e \<Rightarrow> Inl e
      | Inr item \<Rightarrow>
          (case make_sample item of
             Inl e \<Rightarrow> Inl e
           | Inr s \<Rightarrow> get_sample_loop dataset indices (samples @ [s])))"

text \<open>
  \<open>rs N k\<close> is what \<^verbatim>\<open>random.sample(range(N), k)\<close> does in this call: the list it
  draws, or the exception it raises.
\<close>

type_synonym sampler = "nat \<Rightarrow> int \<Rightarrow> py_exn + nat list"

definition get_sample ::
  "sampler \<Rightarrow> loader \<Rightarrow> GetSampleInput \<Rightarrow> world \<Rightarrow> sample list response \<times> world" where
  "get_sample rs ld params w =
     (case p_load_dataset ld w of
        (Inl e, w') \<Rightarrow> (Error_payload (Failed ''Failed to get samples: '' e), w')
      | (Inr dataset, w') \<Rightarrow>
          (let total_size = length dataset in
           case rs total_size (min (gs_n params) (int total_size)) of
             Inl e \<Rightarrow> (Error_payload (Failed ''Failed to get samples: '' e), w')
           | Inr indices \<Rightarrow>
               (case get_sample_loop dataset indices [] of
                  Inl e \<Rightarrow> (Error_payload (Failed ''Failed to get samples: '' e), w')
                | Inr samples \<Rightarrow> (Result samples, w'))))"

subsection \<open>Tool 2: count\_by\_emotion\<close>

record 'f count_result =
  c_emotion :: string
  c_count :: int
  c_total :: int
  c_percentage :: "'f pynum"

text \<open>\<^verbatim>\<open>for lid, label_name in EMOTION_LABELS.items(): if label_name == emotion: ... break\<close>\<close>

fun find_label_id :: "(int \<times> string) list \<Rightarrow> string \<Rightarrow> int option" where
  "find_label_id [] emotion = None"
| "find_label_id ((lid, label_name) # rest) emotion =
     (if label_name = emotion then Some lid else find_label_id rest emotion)"

definition count_by_emotion ::
  "'f float_ops \<Rightarrow> loader \<Rightarrow> CountByEmotionInput \<Rightarrow> world \<Rightarrow> 'f count_result response \<times> world"
  where
  "count_by_emotion fo ld params w =
     (case p_load_dataset ld w of
        (Inl e, w') \<Rightarrow> (Error_payload (Failed ''Failed to count by emotion: '' e), w')
      | (Inr dataset, w') \<Rightarrow>
          (case find_label_id EMOTION_LABELS (emotion_value (ce_emotion params)) of
             None \<Rightarrow> (Error_payload (Unknown_emotion (emotion_value (ce_emotion params))), w')
           | Some label_id \<Rightarrow>
               (let count = (\<Sum>item\<leftarrow>filter (\<lambda>item. item_label item = label_id) dataset. 1);
                    total = int (length dataset)
                in (Result \<lparr>c_emotion = emotion_value (ce_emotion params), c_count = count,
                             c_total = total, c_percentage = percentage fo count total\<rparr>,
                    w'))))"

subsection \<open>Tool 3: search\_text\<close>

record search_response =
  sr_query :: string
  sr_count :: int
  sr_results :: "sample list"

text \<open>\<^verbatim>\<open>str.lower()\<close> on the code points below 256: the ASCII capitals and the
  Latin-1 capitals (all of 192 to 222 but the multiplication sign, 215) move up by 32.\<close>

definition lower_char :: "char \<Rightarrow> char" where
  "lower_char c =
     (let k = (of_char c :: nat)
      in if (65 \<le> k \<and> k \<le> 90) \<or> (192 \<le> k \<and> k \<le> 222 \<and> k \<noteq> 215) then char_of (k + 32)
         else c)"

definition lower :: "string \<Rightarrow> string" where
  "lower s = map lower_char s"

text \<open>\<^verbatim>\<open>for item in dataset: if query_lower in item["text"].lower(): ... break\<close>\<close>

fun search_loop ::
  "string \<Rightarrow> int \<Rightarrow> Record list \<Rightarrow> sample list \<Rightarrow> py_exn + sample list" where
  "search_loop query_lower limit [] results = Inr results"
| "search_loop query_lower limit (item # rest) results =
     (if sublist query_lower (lower (item_text item)) then
        (case make_sample item of
           Inl e \<Rightarrow> Inl e
         | Inr s \<Rightarrow>
             (let results' = results @ [s]
              in if int (length results') \<ge> limit then Inr results'
                 else search_loop query_lower limit rest results'))
      else search_loop query_lower limit rest results)"

definition search_text ::
  "loader \<Rightarrow> SearchTextInput \<Rightarrow> world \<Rightarrow> search_response response \<times> world" where
  "search_text ld params w =
     (case p_load_dataset ld w of
        (Inl e, w') \<Rightarrow> (Error_payload (Failed ''Failed to search text: '' e), w')
      | (Inr dataset, w') \<Rightarrow>
          (case search_loop (lower (st_query params)) (st_limit params) dataset [] of
             Inl e \<Rightarrow> (Error_payload (Failed ''Failed to search text: '' e), w')
           | Inr results \<Rightarrow>
               (Result \<lparr>sr_query = st_query params, sr_count = int (length results),
                        sr_results = results\<rparr>, w')))"

subsection \<open>Tool 4: analyze\_emotion\_distribution\<close>

record 'f dist_entry =
  d_emotion :: string
  d_count :: int
  d_percentage :: "'f pynum"

record 'f dist_result =
  total_samples :: int
  distribution :: "'f dist_entry list"

text \<open>\<^verbatim>\<open>{label: 0 for label in EMOTION_LABELS.values()}\<close>, a dictionary in insertion
  order.\<close>

definition emotion_counts_init :: "(string \<times> int) list" where
  "emotion_counts_init = fold (\<lambda>label d. AList.update label 0 d) (map snd EMOTION_LABELS) []"

text \<open>\<^verbatim>\<open>emotion_counts[emotion_name] += 1\<close>\<close>

definition dict_incr :: "(string \<times> int) list \<Rightarrow> string \<Rightarrow> py_exn + (string \<times> int) list" where
  "dict_incr d k =
     (case map_of d k of
        None \<Rightarrow> Inl (KeyError_str k)
      | Some c \<Rightarrow> Inr (AList.update k (c + 1) d))"

fun count_loop :: "Record list \<Rightarrow> (string \<times> int) list \<Rightarrow> py_exn + (string \<times> int) list" where
  "count_loop [] emotion_counts = Inr emotion_counts"
| "count_loop (item # rest) emotion_counts =
     (case EMOTION_LABELS_getitem (item_label item) of
        Inl e \<Rightarrow> Inl e
      | Inr emotion_name \<Rightarrow>
          (case dict_incr emotion_counts emotion_name of
             Inl e \<Rightarrow> Inl e
           | Inr emotion_counts' \<Rightarrow> count_loop rest emotion_counts'))"

definition analyze_emotion_distribution ::
  "'f float_ops \<Rightarrow> loader \<Rightarrow> world \<Rightarrow> 'f dist_result response \<times> world" where
  "analyze_emotion_distribution fo ld w =
     (case p_load_dataset ld w of
        (Inl e, w') \<Rightarrow> (Error_payload (Failed ''Failed to analyze distribution: '' e), w')
      | (Inr dataset, w') \<Rightarrow>
          (case count_loop dataset emotion_counts_init of
             Inl e \<Rightarrow> (Error_payload (Failed ''Failed to analyze distribution: '' e), w')
           | Inr emotion_counts \<Rightarrow>
               (let total = int (length dataset);
                    distribution =
                      map (\<lambda>(emotion, count).
                             \<lparr>d_emotion = emotion, d_count = count,
                              d_percentage = percentage fo count total\<rparr>)
                          (sort emotion_counts)
                in (Result \<lparr>total_samples = total, distribution = distribution\<rparr>, w'))))"

subsection \<open>Calling a tool with raw arguments\<close>

text \<open>
  \<^verbatim>\<open>await get_sample(GetSampleInput(n=n))\<close> and its siblings, as \<^verbatim>\<open>test_tools.py\<close>
  writes them: Python evaluates the argument first, so an exception of the input
  model's constructor is raised before the tool is entered.
\<close>

definition call_get_sample ::
  "sampler \<Rightarrow> loader \<Rightarrow> int \<Rightarrow> world \<Rightarrow> sample list response outcome \<times> world" where
  "call_get_sample rs ld n w =
     (case GetSampleInput_init n of
        Inl e \<Rightarrow> (Raised e, w)
      | Inr params \<Rightarrow> (case get_sample rs ld params w of (r, w') \<Rightarrow> (Returned r, w')))"

definition call_count_by_emotion ::
  "'f float_ops \<Rightarrow> loader \<Rightarrow> string \<Rightarrow> world \<Rightarrow> 'f count_result response outcome \<times> world"
  where
  "call_count_by_emotion fo ld s w =
     (case CountByEmotionInput_init s of
        Inl e \<Rightarrow> (Raised e, w)
      | Inr params \<Rightarrow> (case count_by_emotion fo ld params w of (r, w') \<Rightarrow> (Returned r, w')))"

definition call_search_text ::
  "loader \<Rightarrow> string \<Rightarrow> int \<Rightarrow> world \<Rightarrow> search_response response outcome \<times> world" where
  "call_search_text ld q l w =
     (case SearchTextInput_init q l of
        Inl e \<Rightarrow> (Raised e, w)
      | Inr params \<Rightarrow> (case search_text ld params w of (r, w') \<Rightarrow> (Returned r, w')))"

definition call_analyze_emotion_distribution ::
  "'f float_ops \<Rightarrow> loader \<Rightarrow> world \<Rightarrow> 'f dist_result response outcome \<times> world" where
  "call_analyze_emotion_distribution fo ld w =
     (case analyze_emotion_distribution fo ld w of (r, w') \<Rightarrow> (Returned r, w'))"

subsection \<open>Notions the properties are stated with\<close>

text \<open>A label code is valid when it is a key of \<^verbatim>\<open>EMOTION_LABELS\<close>; the data model's
  invariant is that every record of the dataset has a valid label.\<close>

definition valid_label :: "int \<Rightarrow> bool" where
  "valid_label k = (map_of EMOTION_LABELS k \<noteq> None)"

definition valid_dataset :: "Record list \<Rightarrow> bool" where
  "valid_dataset ds = list_all (\<lambda>r. valid_label (item_label r)) ds"

text \<open>The table a tool gets to see in world \<open>w\<close> is \<open>ds\<close>: it is cached already, or the
  cache is empty and the attempt to load that comes next yields it.\<close>

definition cache_yields :: "loader \<Rightarrow> world \<Rightarrow> Record list \<Rightarrow> bool" where
  "cache_yields ld w ds = (case DATASET w of None \<Rightarrow> ld (loads w) = Inr ds | Some d \<Rightarrow> d = ds)"

text \<open>The number of records whose label maps to an emotion name under the label
  mapping.\<close>

definition records_with_emotion :: "Record list \<Rightarrow> string \<Rightarrow> int" where
  "records_with_emotion ds name =
     int (length (filter (\<lambda>r. map_of EMOTION_LABELS (item_label r) = Some name) ds))"

text \<open>The four records of the specification's concrete scenario, and a source that
  yields a given table at every attempt.\<close>

definition scenario_dataset :: "Record list" where
  "scenario_dataset =
     [\<lparr>item_text = ''i am so happy'', item_label = 1\<rparr>,
      \<lparr>item_text = ''i feel sad'', item_label = 0\<rparr>,
      \<lparr>item_text = ''i love this'', item_label = 2\<rparr>,
      \<lparr>item_text = ''i am happy again'', item_label = 1\<rparr>]"

definition fixed_source :: "Record list \<Rightarrow> loader" where
  "fixed_source ds k = Inr ds"

text \<open>\<^verbatim>\<open>test_individual_emotions\<close> of \<^verbatim>\<open>test_tools.py\<close>: one call of
  \<^verbatim>\<open>count_by_emotion\<close> after the other, for each emotion of a list, on the world the
  call before left.\<close>

fun test_individual_emotions ::
  "'f float_ops \<Rightarrow> loader \<Rightarrow> EmotionType list \<Rightarrow> world \<Rightarrow> 'f count_result response list \<times> world"
  where
  "test_individual_emotions fo ld [] w = ([], w)"
| "test_individual_emotions fo ld (e # es) w =
     (case count_by_emotion fo ld \<lparr>ce_emotion = e\<rparr> w of
        (r, w') \<Rightarrow>
          (case test_individual_emotions fo ld es w' of (rs, w'') \<Rightarrow> (r # rs, w'')))"

text \<open>The payload \<^verbatim>\<open>count_by_emotion\<close> builds for emotion \<open>e\<close> on the table \<open>ds\<close>.\<close>

definition count_payload :: "'f float_ops \<Rightarrow> Record list \<Rightarrow> EmotionType \<Rightarrow> 'f count_result" where
  "count_payload fo ds e =
     \<lparr>c_emotion = emotion_value e,
      c_count = records_with_emotion ds (emotion_value e),
      c_total = int (length ds),
      c_percentage = percentage fo (records_with_emotion ds (emotion_value e)) (int (length ds))\<rparr>"

text \<open>Two calls of a tool, the second on the world the first left; the pair of the two
  results.\<close>

definition twice :: "(world \<Rightarrow> 'a \<times> world) \<Rightarrow> world \<Rightarrow> 'a \<times> 'a" where
  "twice f w = (case f w of (r1, w1) \<Rightarrow> (case f w1 of (r2, w2) \<Rightarrow> (r1, r2)))"

text \<open>\<open>n\<close> calls of \<^verbatim>\<open>_load_dataset()\<close> in a row: what each returned, and the world
  after the last.\<close>

fun load_calls :: "nat \<Rightarrow> loader \<Rightarrow> world \<Rightarrow> (py_exn + Record list) list \<times> world" where
  "load_calls 0 ld w = ([], w)"
| "load_calls (Suc n) ld w =
     (case p_load_dataset ld w of
        (r, w') \<Rightarrow> (case load_calls n ld w' of (rs, w'') \<Rightarrow> (r # rs, w'')))"

text \<open>A source whose first attempt fails and whose later attempts yield the scenario's
  table.\<close>

definition failing_source :: loader where
  "failing_source k = (if k = 0 then Inl (External ''source unavailable'') else Inr scenario_dataset)"

text \<open>The closed set of emotion names, and a sampler that draws the first \<open>k\<close> indices.\<close>

definition emotion_names :: "string set" where
  "emotion_names = {''sadness'', ''joy'', ''love'', ''anger'', ''fear'', ''surprise''}"

definition draw_first :: sampler where
  "draw_first N k = Inr (take (nat k) [0..<N])"

text \<open>The six emotion names in ascending order, and the entry
  \<^verbatim>\<open>analyze_emotion_distribution\<close> builds for a name on the table \<open>ds\<close>.\<close>

definition sorted_emotion_names :: "string list" where
  "sorted_emotion_names = [''anger'', ''fear'', ''joy'', ''love'', ''sadness'', ''surprise'']"

definition dist_payload :: "'f float_ops \<Rightarrow> Record list \<Rightarrow> string \<Rightarrow> 'f dist_entry" where
  "dist_payload fo ds name =
     \<lparr>d_emotion = name, d_count = records_with_emotion ds name,
      d_percentage = percentage fo (records_with_emotion ds name) (int (length ds))\<rparr>"

text \<open>The dictionary a tool builds for a record with a valid label, and the test of
  \<^verbatim>\<open>search_text\<close>: the lowered query occurs in the lowered text.\<close>

definition sample_of :: "Record \<Rightarrow> sample" where
  "sample_of r =
     \<lparr>s_text = item_text r,
      s_emotion = (case map_of EMOTION_LABELS (item_label r) of None \<Rightarrow> [] | Some name \<Rightarrow> name),
      s_label_id = item_label r\<rparr>"

definition text_matches :: "string \<Rightarrow> Record \<Rightarrow> bool" where
  "text_matches q r = sublist (lower q) (lower (item_text r))"

text \<open>A record whose label is not a key of \<^verbatim>\<open>EMOTION_LABELS\<close>, a table that holds one
  after a sound record, and a sampler that raises as \<^verbatim>\<open>random.sample\<close> does.\<close>

definition invalid_record :: "Record \<Rightarrow> bool" where
  "invalid_record r = (\<not> valid_label (item_label r))"

definition corrupt_dataset :: "Record list" where
  "corrupt_dataset =
     [\<lparr>item_text = ''i am so happy'', item_label = 1\<rparr>,
      \<lparr>item_text = ''i am happy again'', item_label = 7\<rparr>]"

definition draw_fails :: sampler where
  "draw_fails N k = Inl (External ''Sample larger than population or is negative'')"

text \<open>What \<^verbatim>\<open>random.sample(range(N), k)\<close> promises for \<open>0 \<le> k \<le> N\<close>: it returns a
  list of \<open>k\<close> distinct elements of \<^verbatim>\<open>range(N)\<close>.\<close>

definition random_sample_contract :: "sampler \<Rightarrow> bool" where
  "random_sample_contract rs =
     (\<forall>N k. 0 \<le> k \<and> k \<le> int N \<longrightarrow>
        (\<exists>idxs. rs N k = Inr idxs \<and> length idxs = nat k \<and> distinct idxs \<and>
                (\<forall>i\<in>set idxs. i < N)))"

section \<open>Properties\<close>

subsection \<open>Auxiliary facts\<close>

lemma cache_yields_load:
  "cache_yields ld w ds \<Longrightarrow> \<exists>w'. p_load_dataset ld w = (Inr ds, w') \<and> DATASET w' = Some ds"
  by (auto simp: cache_yields_def p_load_dataset_def split: option.splits)

lemma find_label_id_value:
  "find_label_id EMOTION_LABELS (emotion_value e) =
     Some (case e of SADNESS \<Rightarrow> 0 | JOY \<Rightarrow> 1 | LOVE \<Rightarrow> 2 | ANGER \<Rightarrow> 3 | FEAR \<Rightarrow> 4 | SURPRISE \<Rightarrow> 5)"
  by (cases e) (simp_all add: EMOTION_LABELS_def)

lemma label_id_resolves:
  "find_label_id EMOTION_LABELS (emotion_value e) = Some lid \<Longrightarrow>
     (k = lid) = (map_of EMOTION_LABELS k = Some (emotion_value e))"
  by (cases e) (auto simp: EMOTION_LABELS_def split: if_splits)

lemma sum_ones: "(\<Sum>x\<leftarrow>xs. (1::int)) = int (length xs)"
  by (induction xs) simp_all

lemma count_by_emotion_value:
  assumes "p_load_dataset ld w = (Inr ds, w')"
  shows "count_by_emotion fo ld \<lparr>ce_emotion = e\<rparr> w =
           (Result \<lparr>c_emotion = emotion_value e,
                    c_count = records_with_emotion ds (emotion_value e),
                    c_total = int (length ds),
                    c_percentage =
                      percentage fo (records_with_emotion ds (emotion_value e))
                        (int (length ds))\<rparr>, w')"
proof -
  obtain lid where f: "find_label_id EMOTION_LABELS (emotion_value e) = Some lid"
    by (simp add: find_label_id_value)
  have "filter (\<lambda>item. item_label item = lid) ds =
        filter (\<lambda>r. map_of EMOTION_LABELS (item_label r) = Some (emotion_value e)) ds"
    by (rule filter_cong) (simp_all add: label_id_resolves [OF f])
  then have c: "(\<Sum>item\<leftarrow>filter (\<lambda>item. item_label item = lid) ds. 1) =
             records_with_emotion ds (emotion_value e)"
    by (simp add: records_with_emotion_def sum_ones)
  show ?thesis
    by (simp add: count_by_emotion_def assms f c Let_def)
qed

subsection \<open>count\_by\_emotion\<close>

text \<open>
  C1. For each of the six emotion names, \<^verbatim>\<open>count_by_emotion\<close> returns the payload
  \<^verbatim>\<open>{emotion, count, total, percentage}\<close>: \<open>count\<close> is the number of records whose
  label maps to the emotion under the label mapping, \<open>total\<close> is the size of the
  dataset, and \<open>percentage\<close> is \<^verbatim>\<open>round(count / total * 100, 2)\<close> when the total is
  positive and the integer 0 when it is 0. The floating-point operations are the
  parameter \<open>fo\<close>; the dataset is the one the cache yields.
\<close>

theorem count_by_emotion_result:
  assumes "cache_yields ld w ds"
  shows "fst (count_by_emotion fo ld \<lparr>ce_emotion = e\<rparr> w) =
           Result \<lparr>c_emotion = emotion_value e,
                   c_count = records_with_emotion ds (emotion_value e),
                   c_total = int (length ds),
                   c_percentage =
                     (if int (length ds) > 0
                      then PyFloat (fl_round fo (fl_mul fo
                             (fl_truediv fo (records_with_emotion ds (emotion_value e))
                                (int (length ds))) 100) 2)
                      else PyInt 0)\<rparr>"
proof -
  obtain w' where l: "p_load_dataset ld w = (Inr ds, w')"
    using cache_yields_load [OF assms] by blast
  show ?thesis
    by (simp add: count_by_emotion_value [OF l] percentage_def)
qed

theorem count_by_emotion_result_witness:
  "cache_yields (fixed_source scenario_dataset) initial_world scenario_dataset \<and>
   fst (count_by_emotion exact_ops (fixed_source scenario_dataset) \<lparr>ce_emotion = JOY\<rparr>
          initial_world) =
     Result \<lparr>c_emotion = ''joy'', c_count = 2, c_total = 4, c_percentage = PyFloat 50\<rparr>"
proof -
  have h: "cache_yields (fixed_source scenario_dataset) initial_world scenario_dataset"
    by (simp add: cache_yields_def initial_world_def fixed_source_def)
  have r: "records_with_emotion scenario_dataset ''joy'' = 2"
    by (simp add: records_with_emotion_def scenario_dataset_def EMOTION_LABELS_def)
  have p: "fl_round exact_ops (fl_mul exact_ops (fl_truediv exact_ops 2 4) 100) 2 = 50"
    by (simp add: exact_ops_def round_half_even_def)
  have n: "length scenario_dataset = 4"
    by (simp add: scenario_dataset_def)
  show ?thesis
    using h count_by_emotion_result [OF h, of exact_ops JOY]
    by (simp add: r p n)
qed

text \<open>
  C10. For every member of \<^verbatim>\<open>EmotionType\<close> the linear search over
  \<^verbatim>\<open>EMOTION_LABELS\<close> finds a matching label id, one that the mapping sends to the
  name of the emotion, so \<^verbatim>\<open>count_by_emotion\<close> never returns the "Unknown emotion"
  payload.
\<close>

theorem unknown_emotion_unreachable:
  "(\<exists>lid. find_label_id EMOTION_LABELS (emotion_value e) = Some lid \<and>
          map_of EMOTION_LABELS lid = Some (emotion_value e)) \<and>
   fst (count_by_emotion fo ld \<lparr>ce_emotion = e\<rparr> w) \<noteq> Error_payload (Unknown_emotion s)"
proof
  show "\<exists>lid. find_label_id EMOTION_LABELS (emotion_value e) = Some lid \<and>
          map_of EMOTION_LABELS lid = Some (emotion_value e)"
    by (cases e) (simp_all add: EMOTION_LABELS_def)
  show "fst (count_by_emotion fo ld \<lparr>ce_emotion = e\<rparr> w) \<noteq> Error_payload (Unknown_emotion s)"
    by (simp add: find_label_id_value count_by_emotion_def Let_def
        split: prod.splits sum.splits)
qed

lemma load_cached: "DATASET w = Some ds \<Longrightarrow> p_load_dataset ld w = (Inr ds, w)"
  by (simp add: p_load_dataset_def)

lemma individual_cached:
  "DATASET w = Some ds \<Longrightarrow>
     test_individual_emotions fo ld es w = (map (\<lambda>e. Result (count_payload fo ds e)) es, w)"
  by (induction es) (simp_all add: count_by_emotion_value [OF load_cached] count_payload_def)

lemma individual_yields:
  assumes "cache_yields ld w ds"
  shows "fst (test_individual_emotions fo ld es w) = map (\<lambda>e. Result (count_payload fo ds e)) es"
proof (cases es)
  case Nil
  then show ?thesis by simp
next
  case (Cons e es')
  obtain w' where l: "p_load_dataset ld w = (Inr ds, w')" and d: "DATASET w' = Some ds"
    using cache_yields_load [OF assms] by blast
  show ?thesis
    by (simp add: Cons count_by_emotion_value [OF l] individual_cached [OF d] count_payload_def)
qed

lemma record_counted_once:
  "valid_label (item_label r) \<Longrightarrow>
     (\<Sum>e\<leftarrow>EmotionType_members. records_with_emotion (r # ds) (emotion_value e)) =
     1 + (\<Sum>e\<leftarrow>EmotionType_members. records_with_emotion ds (emotion_value e))"
  by (auto simp: valid_label_def EMOTION_LABELS_def EmotionType_members_def
      records_with_emotion_def split: if_splits)

lemma counts_partition:
  "valid_dataset ds \<Longrightarrow>
     (\<Sum>e\<leftarrow>EmotionType_members. records_with_emotion ds (emotion_value e)) = int (length ds)"
proof (induction ds)
  case Nil
  show ?case by (simp add: records_with_emotion_def EmotionType_members_def)
next
  case (Cons r ds)
  then have "valid_label (item_label r)" and "valid_dataset ds"
    by (simp_all add: valid_dataset_def)
  with Cons.IH show ?case
    by (simp add: record_counted_once)
qed

text \<open>
  C8. On a dataset in which every record has a valid label, the counts that
  \<^verbatim>\<open>count_by_emotion\<close> returns for the six emotion names add up to the size of the
  dataset, which is the total each of the six results reports.
\<close>

theorem counts_sum_to_total:
  assumes "valid_dataset ds" and "cache_yields ld w ds"
  shows "\<exists>cs. fst (test_individual_emotions fo ld EmotionType_members w) = map Result cs \<and>
              map c_emotion cs = map emotion_value EmotionType_members \<and>
              sum_list (map c_count cs) = int (length ds) \<and>
              list_all (\<lambda>c. c_total c = int (length ds)) cs"
proof -
  let ?cs = "map (count_payload fo ds) EmotionType_members"
  have "fst (test_individual_emotions fo ld EmotionType_members w) = map Result ?cs"
    by (simp add: individual_yields [OF assms(2)] comp_def)
  moreover have "map c_emotion ?cs = map emotion_value EmotionType_members"
    by (simp add: count_payload_def comp_def)
  moreover have "sum_list (map c_count ?cs) = int (length ds)"
    using counts_partition [OF assms(1)] by (simp add: count_payload_def comp_def)
  moreover have "list_all (\<lambda>c. c_total c = int (length ds)) ?cs"
    by (simp add: list_all_iff count_payload_def)
  ultimately show ?thesis by blast
qed

theorem counts_sum_to_total_witness:
  "valid_dataset scenario_dataset \<and>
   cache_yields (fixed_source scenario_dataset) initial_world scenario_dataset \<and>
   (\<exists>cs. fst (test_individual_emotions exact_ops (fixed_source scenario_dataset)
                 EmotionType_members initial_world) = map Result cs \<and>
         map c_emotion cs = map emotion_value EmotionType_members \<and>
         sum_list (map c_count cs) = 4 \<and>
         list_all (\<lambda>c. c_total c = 4) cs)"
proof -
  have v: "valid_dataset scenario_dataset"
    by (simp add: valid_dataset_def valid_label_def scenario_dataset_def EMOTION_LABELS_def)
  have h: "cache_yields (fixed_source scenario_dataset) initial_world scenario_dataset"
    by (simp add: cache_yields_def initial_world_def fixed_source_def)
  have n: "int (length scenario_dataset) = 4"
    by (simp add: scenario_dataset_def)
  show ?thesis
    using v h counts_sum_to_total [OF v h, of exact_ops] unfolding n by simp
qed

lemma load_again:
  assumes "ld (Suc (loads w)) = ld (loads w)"
  shows "fst (p_load_dataset ld (snd (p_load_dataset ld w))) = fst (p_load_dataset ld w)"
  using assms by (auto simp: p_load_dataset_def split: option.splits sum.splits)

lemma twice_same:
  assumes "\<And>w. f w = (g (fst (p_load_dataset ld w)), snd (p_load_dataset ld w))"
    and "ld (Suc (loads w)) = ld (loads w)"
  shows "fst (twice f w) = snd (twice f w)"
  by (simp add: twice_def assms(1) load_again [OF assms(2)])

lemma count_by_emotion_of_load:
  "count_by_emotion fo ld p w =
     (case fst (p_load_dataset ld w) of
        Inl e \<Rightarrow> Error_payload (Failed ''Failed to count by emotion: '' e)
      | Inr dataset \<Rightarrow>
          (case find_label_id EMOTION_LABELS (emotion_value (ce_emotion p)) of
             None \<Rightarrow> Error_payload (Unknown_emotion (emotion_value (ce_emotion p)))
           | Some label_id \<Rightarrow>
               (let count = (\<Sum>item\<leftarrow>filter (\<lambda>item. item_label item = label_id) dataset. 1);
                    total = int (length dataset)
                in Result \<lparr>c_emotion = emotion_value (ce_emotion p), c_count = count,
                            c_total = total, c_percentage = percentage fo count total\<rparr>)),
      snd (p_load_dataset ld w))"
  by (simp add: count_by_emotion_def Let_def split: prod.splits sum.splits option.splits)

lemma analyze_of_load:
  "analyze_emotion_distribution fo ld w =
     (case fst (p_load_dataset ld w) of
        Inl e \<Rightarrow> Error_payload (Failed ''Failed to analyze distribution: '' e)
      | Inr dataset \<Rightarrow>
          (case count_loop dataset emotion_counts_init of
             Inl e \<Rightarrow> Error_payload (Failed ''Failed to analyze distribution: '' e)
           | Inr emotion_counts \<Rightarrow>
               (let total = int (length dataset);
                    distribution =
                      map (\<lambda>(emotion, count).
                             \<lparr>d_emotion = emotion, d_count = count,
                              d_percentage = percentage fo count total\<rparr>)
                          (sort emotion_counts)
                in Result \<lparr>total_samples = total, distribution = distribution\<rparr>)),
      snd (p_load_dataset ld w))"
  by (simp add: analyze_emotion_distribution_def Let_def split: prod.splits sum.splits)

subsection \<open>Repeated calls\<close>

text \<open>
  C9. On an unchanged dataset (the source answers the next attempt to load as it
  answers this one; nothing is asked of it once the table is cached), a second call of
  \<^verbatim>\<open>count_by_emotion\<close> with the same emotion returns what the first returned, and so
  does a second call of \<^verbatim>\<open>analyze_emotion_distribution\<close>. Nothing of the kind is
  stated of \<^verbatim>\<open>get_sample\<close>, whose result is the draw of \<^verbatim>\<open>random.sample\<close>.
\<close>

theorem repeated_calls_identical:
  assumes "ld (Suc (loads w)) = ld (loads w)"
  shows "fst (twice (count_by_emotion fo ld p) w) = snd (twice (count_by_emotion fo ld p) w) \<and>
         fst (twice (analyze_emotion_distribution fo ld) w) =
           snd (twice (analyze_emotion_distribution fo ld) w)"
proof
  show "fst (twice (count_by_emotion fo ld p) w) = snd (twice (count_by_emotion fo ld p) w)"
    by (rule twice_same [OF count_by_emotion_of_load assms])
  show "fst (twice (analyze_emotion_distribution fo ld) w) =
          snd (twice (analyze_emotion_distribution fo ld) w)"
    by (rule twice_same [OF analyze_of_load assms])
qed

theorem repeated_calls_identical_witness:
  "fixed_source scenario_dataset (Suc (loads initial_world)) =
     fixed_source scenario_dataset (loads initial_world) \<and>
   fst (twice (count_by_emotion exact_ops (fixed_source scenario_dataset) \<lparr>ce_emotion = JOY\<rparr>)
          initial_world) =
   snd (twice (count_by_emotion exact_ops (fixed_source scenario_dataset) \<lparr>ce_emotion = JOY\<rparr>)
          initial_world) \<and>
   fst (twice (analyze_emotion_distribution exact_ops (fixed_source scenario_dataset))
          initial_world) =
   snd (twice (analyze_emotion_distribution exact_ops (fixed_source scenario_dataset))
          initial_world)"
proof -
  have h: "fixed_source scenario_dataset (Suc (loads initial_world)) =
             fixed_source scenario_dataset (loads initial_world)"
    by (simp add: fixed_source_def)
  show ?thesis
    using h repeated_calls_identical [OF h, of exact_ops "\<lparr>ce_emotion = JOY\<rparr>"] by simp
qed

subsection \<open>The dataset cache\<close>

lemma load_calls_cached:
  "DATASET w = Some d \<Longrightarrow> load_calls n ld w = (replicate n (Inr d), w)"
  by (induction n) (simp_all add: load_cached)

text \<open>
  C7. The first successful call of the loader stores the table in the cache; once the
  table is cached, every call returns that same table and neither the cache nor the
  number of loads changes, so the table is loaded at most once. If the load fails, the
  exception reaches the caller of \<^verbatim>\<open>_load_dataset\<close>, the cache stays empty, and the
  next call asks the source again.
\<close>

theorem dataset_loaded_once:
  "(DATASET w = None \<and> ld (loads w) = Inr d \<longrightarrow>
      p_load_dataset ld w = (Inr d, w\<lparr>DATASET := Some d, loads := Suc (loads w)\<rparr>)) \<and>
   (DATASET w = Some d \<longrightarrow> load_calls n ld w = (replicate n (Inr d), w)) \<and>
   (DATASET w = None \<and> ld (loads w) = Inl e \<longrightarrow>
      p_load_dataset ld w = (Inl e, w\<lparr>loads := Suc (loads w)\<rparr>) \<and>
      DATASET (snd (p_load_dataset ld w)) = None \<and>
      fst (p_load_dataset ld (snd (p_load_dataset ld w))) = ld (Suc (loads w)))"
  by (auto simp: load_calls_cached p_load_dataset_def split: sum.splits)

theorem dataset_loaded_once_witness:
  "DATASET initial_world = None \<and> failing_source (loads initial_world) =
     Inl (External ''source unavailable'') \<and>
   p_load_dataset failing_source initial_world =
     (Inl (External ''source unavailable''), \<lparr>DATASET = None, loads = 1\<rparr>) \<and>
   DATASET \<lparr>DATASET = None, loads = 1\<rparr> = None \<and>
   failing_source (loads \<lparr>DATASET = None, loads = 1\<rparr>) = Inr scenario_dataset \<and>
   p_load_dataset failing_source \<lparr>DATASET = None, loads = 1\<rparr> =
     (Inr scenario_dataset, \<lparr>DATASET = Some scenario_dataset, loads = 2\<rparr>) \<and>
   DATASET \<lparr>DATASET = Some scenario_dataset, loads = 2\<rparr> = Some scenario_dataset \<and>
   load_calls 3 failing_source \<lparr>DATASET = Some scenario_dataset, loads = 2\<rparr> =
     (replicate 3 (Inr scenario_dataset), \<lparr>DATASET = Some scenario_dataset, loads = 2\<rparr>)"
  using dataset_loaded_once [of initial_world failing_source scenario_dataset 3
      "External ''source unavailable''"]
    dataset_loaded_once [of "\<lparr>DATASET = None, loads = 1\<rparr>" failing_source scenario_dataset 3
      "External ''source unavailable''"]
    dataset_loaded_once [of "\<lparr>DATASET = Some scenario_dataset, loads = 2\<rparr>" failing_source
      scenario_dataset 3 "External ''source unavailable''"]
  by (simp add: initial_world_def failing_source_def)

subsection \<open>Validation of the parameters\<close>

lemma EmotionType_of_value_cases:
  "EmotionType_of_value s =
     (if s = ''sadness'' then Some SADNESS else if s = ''joy'' then Some JOY
      else if s = ''love'' then Some LOVE else if s = ''anger'' then Some ANGER
      else if s = ''fear'' then Some FEAR else if s = ''surprise'' then Some SURPRISE
      else None)"
  by (simp add: EmotionType_of_value_def EmotionType_members_def)

lemma strip_xs: "strip (replicate n CHR ''x'') = replicate n CHR ''x''"
  by (simp add: strip_def is_whitespace_def)

text \<open>
  C6. The constraints of the parameters are enforced before any access to the data.
  \<^verbatim>\<open>GetSampleInput\<close> accepts \<open>n\<close> exactly when it is between 1 and 100: 0 and 101 are
  rejected with a validation error, 1 and 100 are accepted. \<^verbatim>\<open>SearchTextInput\<close> accepts
  exactly the queries of 1 to 200 characters after trimming with a limit between 1 and
  100: a query that is empty after trimming and the query of 201 letters are rejected.
  \<^verbatim>\<open>CountByEmotionInput\<close> rejects every string outside the six emotion names. A call
  whose argument is rejected raises the validation error and leaves the world as it
  was: the cache is not touched and the source is not asked.
\<close>

theorem validation_before_access:
  "((\<exists>p. GetSampleInput_init n = Inr p) = (1 \<le> n \<and> n \<le> 100)) \<and>
   (GetSampleInput_init n = Inl (ValidationError [''n'']) \<or>
      GetSampleInput_init n = Inr \<lparr>gs_n = n\<rparr>) \<and>
   GetSampleInput_init 0 = Inl (ValidationError [''n'']) \<and>
   GetSampleInput_init 101 = Inl (ValidationError [''n'']) \<and>
   GetSampleInput_init 1 = Inr \<lparr>gs_n = 1\<rparr> \<and>
   GetSampleInput_init 100 = Inr \<lparr>gs_n = 100\<rparr> \<and>
   ((\<exists>p. SearchTextInput_init q l = Inr p) =
      (1 \<le> length (strip q) \<and> length (strip q) \<le> 200 \<and> 1 \<le> l \<and> l \<le> 100)) \<and>
   ((\<exists>fs. SearchTextInput_init q l = Inl (ValidationError fs) \<and> ''query'' \<in> set fs) =
      (strip q = [] \<or> length (strip q) > 200)) \<and>
   SearchTextInput_init '''' 10 = Inl (ValidationError [''query'']) \<and>
   SearchTextInput_init (replicate 201 CHR ''x'') 10 = Inl (ValidationError [''query'']) \<and>
   ((\<exists>p. CountByEmotionInput_init s = Inr p) = (s \<in> emotion_names)) \<and>
   ((CountByEmotionInput_init s = Inl (ValidationError [''emotion''])) = (s \<notin> emotion_names)) \<and>
   (GetSampleInput_init n = Inl e \<longrightarrow> call_get_sample rs ld n w = (Raised e, w)) \<and>
   (SearchTextInput_init q l = Inl e \<longrightarrow> call_search_text ld q l w = (Raised e, w)) \<and>
   (CountByEmotionInput_init s = Inl e \<longrightarrow> call_count_by_emotion fo ld s w = (Raised e, w))"
proof -
  have g: "((\<exists>p. GetSampleInput_init n = Inr p) = (1 \<le> n \<and> n \<le> 100)) \<and>
     (GetSampleInput_init n = Inl (ValidationError [''n'']) \<or>
        GetSampleInput_init n = Inr \<lparr>gs_n = n\<rparr>) \<and>
     GetSampleInput_init 0 = Inl (ValidationError [''n'']) \<and>
     GetSampleInput_init 101 = Inl (ValidationError [''n'']) \<and>
     GetSampleInput_init 1 = Inr \<lparr>gs_n = 1\<rparr> \<and>
     GetSampleInput_init 100 = Inr \<lparr>gs_n = 100\<rparr>"
    by (auto simp: GetSampleInput_init_def)
  have s1: "(\<exists>p. SearchTextInput_init q l = Inr p) =
      (1 \<le> length (strip q) \<and> length (strip q) \<le> 200 \<and> 1 \<le> l \<and> l \<le> 100)"
    by (cases "strip q") (auto simp: SearchTextInput_init_def Let_def)
  have s2: "(\<exists>fs. SearchTextInput_init q l = Inl (ValidationError fs) \<and> ''query'' \<in> set fs) =
      (strip q = [] \<or> length (strip q) > 200)"
    by (cases "strip q") (auto simp: SearchTextInput_init_def Let_def)
  have s3: "SearchTextInput_init '''' 10 = Inl (ValidationError [''query''])"
    by (simp add: SearchTextInput_init_def strip_def)
  have s4: "SearchTextInput_init (replicate 201 CHR ''x'') 10 = Inl (ValidationError [''query''])"
    by (simp add: SearchTextInput_init_def strip_xs)
  have c1: "(\<exists>p. CountByEmotionInput_init s = Inr p) = (s \<in> emotion_names)"
    by (simp add: CountByEmotionInput_init_def EmotionType_of_value_cases emotion_names_def)
  have c2: "(CountByEmotionInput_init s = Inl (ValidationError [''emotion''])) =
      (s \<notin> emotion_names)"
    by (simp add: CountByEmotionInput_init_def EmotionType_of_value_cases emotion_names_def)
  have d1: "GetSampleInput_init n = Inl e \<longrightarrow> call_get_sample rs ld n w = (Raised e, w)"
    by (simp add: call_get_sample_def)
  have d2: "SearchTextInput_init q l = Inl e \<longrightarrow> call_search_text ld q l w = (Raised e, w)"
    by (simp add: call_search_text_def)
  have d3: "CountByEmotionInput_init s = Inl e \<longrightarrow>
      call_count_by_emotion fo ld s w = (Raised e, w)"
    by (simp add: call_count_by_emotion_def)
  from g s1 s2 s3 s4 c1 c2 d1 d2 d3 show ?thesis by blast
qed

theorem validation_before_access_witness:
  "GetSampleInput_init 0 = Inl (ValidationError [''n'']) \<and>
   call_get_sample draw_first (fixed_source scenario_dataset) 0 initial_world =
     (Raised (ValidationError [''n'']), initial_world) \<and>
   SearchTextInput_init ''   '' 10 = Inl (ValidationError [''query'']) \<and>
   call_search_text (fixed_source scenario_dataset) ''   '' 10 initial_world =
     (Raised (ValidationError [''query'']), initial_world) \<and>
   CountByEmotionInput_init ''excited'' = Inl (ValidationError [''emotion'']) \<and>
   call_count_by_emotion exact_ops (fixed_source scenario_dataset) ''excited'' initial_world =
     (Raised (ValidationError [''emotion'']), initial_world)"
proof -
  have a: "GetSampleInput_init 0 = Inl (ValidationError [''n''])"
    by (simp add: GetSampleInput_init_def)
  have b: "SearchTextInput_init ''   '' 10 = Inl (ValidationError [''query''])"
    by (simp add: SearchTextInput_init_def strip_def is_whitespace_def)
  have c: "CountByEmotionInput_init ''excited'' = Inl (ValidationError [''emotion''])"
    by (simp add: CountByEmotionInput_init_def EmotionType_of_value_cases)
  show ?thesis
    using a b c
      validation_before_access [of 0 "''   ''" 10 "''excited''" "ValidationError [''n'']"
        draw_first "fixed_source scenario_dataset" initial_world]
      validation_before_access [of 0 "''   ''" 10 "''excited''" "ValidationError [''query'']"
        draw_first "fixed_source scenario_dataset" initial_world]
      validation_before_access [of 0 "''   ''" 10 "''excited''" "ValidationError [''emotion'']"
        draw_first "fixed_source scenario_dataset" initial_world exact_ops]
    by simp
qed

subsection \<open>analyze\_emotion\_distribution\<close>

lemma sort_names:
  "sort [(''sadness'', a), (''joy'', b), (''love'', c), (''anger'', d), (''fear'', e),
         (''surprise'', f :: int)] =
     [(''anger'', d), (''fear'', e), (''joy'', b), (''love'', c), (''sadness'', a),
      (''surprise'', f)]"
  by (simp add: less_eq_prod_def less_prod_def)

lemma emotion_counts_init_value:
  "emotion_counts_init = map (\<lambda>n. (n, (\<lambda>_. 0) n)) (map snd EMOTION_LABELS)"
  by (simp add: emotion_counts_init_def EMOTION_LABELS_def)

lemma map_of_tabulated:
  "map_of (map (\<lambda>n. (n, f n)) ns) k = (if k \<in> set ns then Some (f k) else None)"
  by (induction ns) auto

lemma update_tabulated:
  "distinct ns \<Longrightarrow> k \<in> set ns \<Longrightarrow>
     AList.update k v (map (\<lambda>n. (n, f n)) ns) = map (\<lambda>n. (n, (f(k := v)) n)) ns"
proof (induction ns)
  case Nil
  then show ?case by simp
next
  case (Cons a ns)
  show ?case
  proof (cases "a = k")
    case True
    with Cons.prems have "k \<notin> set ns" by simp
    then have "map (\<lambda>n. (n, (f(k := v)) n)) ns = map (\<lambda>n. (n, f n)) ns"
      by (intro map_cong) auto
    with True show ?thesis by simp
  next
    case False
    with Cons show ?thesis by simp
  qed
qed

lemma dict_incr_tabulated:
  "distinct ns \<Longrightarrow> k \<in> set ns \<Longrightarrow>
     dict_incr (map (\<lambda>n. (n, f n)) ns) k = Inr (map (\<lambda>n. (n, (f(k := f k + 1)) n)) ns)"
  by (simp add: dict_incr_def map_of_tabulated update_tabulated)

lemma records_with_emotion_Cons:
  "records_with_emotion (r # ds) n =
     (if map_of EMOTION_LABELS (item_label r) = Some n then 1 else 0) + records_with_emotion ds n"
  by (simp add: records_with_emotion_def)

lemma count_loop_tabulated:
  "valid_dataset ds \<Longrightarrow> distinct ns \<Longrightarrow> snd ` set EMOTION_LABELS \<subseteq> set ns \<Longrightarrow>
     count_loop ds (map (\<lambda>n. (n, f n)) ns) =
       Inr (map (\<lambda>n. (n, f n + records_with_emotion ds n)) ns)"
proof (induction ds arbitrary: f)
  case Nil
  show ?case by (simp add: records_with_emotion_def)
next
  case (Cons r ds)
  from Cons.prems(1) obtain name where
    name: "map_of EMOTION_LABELS (item_label r) = Some name" and v: "valid_dataset ds"
    by (auto simp: valid_dataset_def valid_label_def)
  from name have "(item_label r, name) \<in> set EMOTION_LABELS"
    by (rule map_of_SomeD)
  then have "name \<in> snd ` set EMOTION_LABELS"
    by force
  with Cons.prems(3) have mem: "name \<in> set ns" by blast
  have "map (\<lambda>n. (n, (f(name := f name + 1)) n + records_with_emotion ds n)) ns =
        map (\<lambda>n. (n, f n + records_with_emotion (r # ds) n)) ns"
    by (rule map_cong) (auto simp: records_with_emotion_Cons name)
  then show ?case
    by (simp add: EMOTION_LABELS_getitem_def name dict_incr_tabulated [OF Cons.prems(2) mem]
        Cons.IH [OF v Cons.prems(2) Cons.prems(3)])
qed

lemma count_loop_value:
  assumes "valid_dataset ds"
  shows "count_loop ds emotion_counts_init =
           Inr (map (\<lambda>n. (n, records_with_emotion ds n)) (map snd EMOTION_LABELS))"
proof -
  have d: "distinct (map snd EMOTION_LABELS)"
    by (simp add: EMOTION_LABELS_def)
  have s: "snd ` set EMOTION_LABELS \<subseteq> set (map snd EMOTION_LABELS)"
    by simp
  show ?thesis
    unfolding emotion_counts_init_value
    by (simp only: count_loop_tabulated [OF assms d s]) simp
qed

lemma analyze_value:
  assumes "valid_dataset ds" and "p_load_dataset ld w = (Inr ds, w')"
  shows "analyze_emotion_distribution fo ld w =
           (Result \<lparr>total_samples = int (length ds),
                    distribution = map (dist_payload fo ds) sorted_emotion_names\<rparr>, w')"
  by (simp add: analyze_emotion_distribution_def assms(2) count_loop_value [OF assms(1)]
      EMOTION_LABELS_def sort_names sorted_emotion_names_def dist_payload_def Let_def)

lemma sorted_counts_partition:
  "valid_dataset ds \<Longrightarrow>
     (\<Sum>n\<leftarrow>sorted_emotion_names. records_with_emotion ds n) = int (length ds)"
  using counts_partition [of ds]
  by (simp add: EmotionType_members_def sorted_emotion_names_def)

text \<open>
  C3. On a dataset with valid labels \<^verbatim>\<open>analyze_emotion_distribution\<close> returns exactly
  six entries, one for each emotion name, in ascending order of the name (anger, fear,
  joy, love, sadness, surprise). The count of an entry is the number of records that
  resolve to its emotion (0 for an emotion that never appears), its percentage is
  \<^verbatim>\<open>round(count / total * 100, 2)\<close> when the total is positive and 0 otherwise, and
  \<^verbatim>\<open>total_samples\<close> is the size of the dataset and the sum of the six counts.
\<close>

theorem distribution_result:
  assumes "valid_dataset ds" and "cache_yields ld w ds"
  shows "\<exists>R. fst (analyze_emotion_distribution fo ld w) = Result R \<and>
             length (distribution R) = 6 \<and>
             map d_emotion (distribution R) =
               [''anger'', ''fear'', ''joy'', ''love'', ''sadness'', ''surprise''] \<and>
             sorted_wrt (<) (map d_emotion (distribution R)) \<and>
             list_all (\<lambda>x. d_count x = records_with_emotion ds (d_emotion x) \<and>
                           d_percentage x =
                             (if total_samples R > 0
                              then PyFloat (fl_round fo (fl_mul fo
                                     (fl_truediv fo (d_count x) (total_samples R)) 100) 2)
                              else PyInt 0))
               (distribution R) \<and>
             total_samples R = int (length ds) \<and>
             total_samples R = sum_list (map d_count (distribution R))"
proof -
  obtain w' where l: "p_load_dataset ld w = (Inr ds, w')"
    using cache_yields_load [OF assms(2)] by blast
  let ?R = "\<lparr>total_samples = int (length ds),
             distribution = map (dist_payload fo ds) sorted_emotion_names\<rparr>"
  have a: "fst (analyze_emotion_distribution fo ld w) = Result ?R"
    by (simp add: analyze_value [OF assms(1) l])
  have b: "map d_emotion (distribution ?R) =
             [''anger'', ''fear'', ''joy'', ''love'', ''sadness'', ''surprise'']"
    by (simp add: sorted_emotion_names_def dist_payload_def)
  have c: "sorted_wrt (<) [''anger'', ''fear'', ''joy'', ''love'', ''sadness'', ''surprise'']"
    by simp
  have d: "list_all (\<lambda>x. d_count x = records_with_emotion ds (d_emotion x) \<and>
                           d_percentage x =
                             (if total_samples ?R > 0
                              then PyFloat (fl_round fo (fl_mul fo
                                     (fl_truediv fo (d_count x) (total_samples ?R)) 100) 2)
                              else PyInt 0))
               (distribution ?R)"
    by (simp add: list_all_iff dist_payload_def percentage_def)
  have e: "total_samples ?R = sum_list (map d_count (distribution ?R))"
    using sorted_counts_partition [OF assms(1)] by (simp add: comp_def dist_payload_def)
  have f: "length (distribution ?R) = 6"
    by (simp add: sorted_emotion_names_def)
  have g: "total_samples ?R = int (length ds)"
    by simp
  from a b c d e f g show ?thesis
    by (intro exI [of _ ?R] conjI) (simp_all only:)
qed

theorem distribution_result_witness:
  "valid_dataset scenario_dataset \<and>
   cache_yields (fixed_source scenario_dataset) initial_world scenario_dataset \<and>
   (\<exists>R. fst (analyze_emotion_distribution exact_ops (fixed_source scenario_dataset)
                initial_world) = Result R \<and>
        length (distribution R) = 6 \<and>
        map d_emotion (distribution R) =
          [''anger'', ''fear'', ''joy'', ''love'', ''sadness'', ''surprise''] \<and>
        sorted_wrt (<) (map d_emotion (distribution R)) \<and>
        list_all (\<lambda>x. d_count x = records_with_emotion scenario_dataset (d_emotion x) \<and>
                      d_percentage x =
                        (if total_samples R > 0
                         then PyFloat (fl_round exact_ops (fl_mul exact_ops
                                (fl_truediv exact_ops (d_count x) (total_samples R)) 100) 2)
                         else PyInt 0))
          (distribution R) \<and>
        total_samples R = int (length scenario_dataset) \<and>
        total_samples R = sum_list (map d_count (distribution R)))"
proof -
  have v: "valid_dataset scenario_dataset"
    by (simp add: valid_dataset_def valid_label_def scenario_dataset_def EMOTION_LABELS_def)
  have h: "cache_yields (fixed_source scenario_dataset) initial_world scenario_dataset"
    by (simp add: cache_yields_def initial_world_def fixed_source_def)
  show ?thesis
    by (intro conjI v h distribution_result [OF v h])
qed

text \<open>The specification's scenario of four records, evaluated.\<close>

lemma scenario_distribution:
  "fst (analyze_emotion_distribution exact_ops (fixed_source scenario_dataset) initial_world) =
     Result \<lparr>total_samples = 4,
             distribution =
               [\<lparr>d_emotion = ''anger'', d_count = 0, d_percentage = PyFloat 0\<rparr>,
                \<lparr>d_emotion = ''fear'', d_count = 0, d_percentage = PyFloat 0\<rparr>,
                \<lparr>d_emotion = ''joy'', d_count = 2, d_percentage = PyFloat 50\<rparr>,
                \<lparr>d_emotion = ''love'', d_count = 1, d_percentage = PyFloat 25\<rparr>,
                \<lparr>d_emotion = ''sadness'', d_count = 1, d_percentage = PyFloat 25\<rparr>,
                \<lparr>d_emotion = ''surprise'', d_count = 0, d_percentage = PyFloat 0\<rparr>]\<rparr>"
proof -
  have v: "valid_dataset scenario_dataset"
    by (simp add: valid_dataset_def valid_label_def scenario_dataset_def EMOTION_LABELS_def)
  have l: "p_load_dataset (fixed_source scenario_dataset) initial_world =
             (Inr scenario_dataset, \<lparr>DATASET = Some scenario_dataset, loads = 1\<rparr>)"
    by (simp add: p_load_dataset_def initial_world_def fixed_source_def)
  have r: "map (records_with_emotion scenario_dataset) sorted_emotion_names = [0, 0, 2, 1, 1, 0]"
    by (simp add: records_with_emotion_def scenario_dataset_def EMOTION_LABELS_def
        sorted_emotion_names_def)
  have n: "int (length scenario_dataset) = 4"
    by (simp add: scenario_dataset_def)
  have p: "percentage exact_ops 0 4 = PyFloat 0" "percentage exact_ops 2 4 = PyFloat 50"
    "percentage exact_ops 1 4 = PyFloat 25"
    by (simp_all add: percentage_def exact_ops_def round_half_even_def)
  from r show ?thesis
    by (simp add: analyze_value [OF v l] dist_payload_def n p sorted_emotion_names_def)
qed

subsection \<open>search\_text\<close>

lemma make_sample_valid:
  "valid_label (item_label r) \<Longrightarrow> make_sample r = Inr (sample_of r)"
  by (auto simp: make_sample_def EMOTION_LABELS_getitem_def sample_of_def valid_label_def)

lemma sample_of_consistent:
  "valid_label (item_label r) \<Longrightarrow>
     map_of EMOTION_LABELS (s_label_id (sample_of r)) = Some (s_emotion (sample_of r))"
  by (auto simp: sample_of_def valid_label_def)

lemma valid_dataset_Cons:
  "valid_dataset (r # ds) = (valid_label (item_label r) \<and> valid_dataset ds)"
  by (simp add: valid_dataset_def)

lemma search_loop_value:
  "valid_dataset ds \<Longrightarrow> int (length acc) < lmt \<Longrightarrow>
     search_loop ql lmt ds acc =
       Inr (acc @ map sample_of
              (take (nat lmt - length acc) (filter (\<lambda>r. sublist ql (lower (item_text r))) ds)))"
proof (induction ds arbitrary: acc)
  case Nil
  show ?case by simp
next
  case (Cons r ds)
  from Cons.prems(1) have vr: "valid_label (item_label r)" and vd: "valid_dataset ds"
    by (simp_all add: valid_dataset_Cons)
  show ?case
  proof (cases "sublist ql (lower (item_text r))")
    case False
    with Cons.IH [OF vd Cons.prems(2)] show ?thesis by simp
  next
    case True
    from Cons.prems(2) obtain k where k: "nat lmt - length acc = Suc k"
      by (cases "nat lmt - length acc") auto
    show ?thesis
    proof (cases "lmt \<le> int (length acc) + 1")
      case full: True
      with k have "k = 0" by linarith
      with True full k show ?thesis
        by (simp add: make_sample_valid [OF vr])
    next
      case room: False
      then have lt: "int (length (acc @ [sample_of r])) < lmt" by simp
      have "nat lmt - length (acc @ [sample_of r]) = k"
        using k by simp
      with True room k Cons.IH [OF vd lt] show ?thesis
        by (simp add: make_sample_valid [OF vr])
    qed
  qed
qed

lemma valid_dataset_sub:
  "valid_dataset ds \<Longrightarrow> set xs \<subseteq> set ds \<Longrightarrow> valid_dataset xs"
  by (auto simp: valid_dataset_def list_all_iff)

text \<open>
  C2. For every query and every limit from 1 on (so for every limit in 1 to 100), on a
  dataset with valid labels, \<^verbatim>\<open>search_text\<close> returns the first
  \<open>min limit m\<close> of the \<open>m\<close> records whose text contains the query without regard
  to case, in the stored order. Each returned text contains the query without regard to
  case, each emotion name is the one the label mapping gives the label id, at most
  \<open>limit\<close> results are returned, and \<^verbatim>\<open>count\<close> is the length of the list of results.
\<close>

theorem search_text_result:
  assumes "valid_dataset ds" and "cache_yields ld w ds" and "1 \<le> st_limit p"
  shows "fst (search_text ld p w) =
           Result \<lparr>sr_query = st_query p,
                   sr_count =
                     int (length (take (nat (st_limit p))
                                    (filter (text_matches (st_query p)) ds))),
                   sr_results =
                     map sample_of
                       (take (nat (st_limit p)) (filter (text_matches (st_query p)) ds))\<rparr> \<and>
         length (take (nat (st_limit p)) (filter (text_matches (st_query p)) ds)) =
           min (nat (st_limit p)) (length (filter (text_matches (st_query p)) ds)) \<and>
         int (length (take (nat (st_limit p)) (filter (text_matches (st_query p)) ds)))
           \<le> st_limit p \<and>
         list_all (\<lambda>s. sublist (lower (st_query p)) (lower (s_text s)) \<and>
                       map_of EMOTION_LABELS (s_label_id s) = Some (s_emotion s))
           (map sample_of (take (nat (st_limit p)) (filter (text_matches (st_query p)) ds)))"
proof -
  let ?M = "take (nat (st_limit p)) (filter (text_matches (st_query p)) ds)"
  obtain w' where l: "p_load_dataset ld w = (Inr ds, w')"
    using cache_yields_load [OF assms(2)] by blast
  have lt: "int (length ([] :: sample list)) < st_limit p"
    using assms(3) by simp
  have f: "(\<lambda>r. sublist (lower (st_query p)) (lower (item_text r))) = text_matches (st_query p)"
    by (simp add: text_matches_def fun_eq_iff)
  have a: "fst (search_text ld p w) =
             Result \<lparr>sr_query = st_query p, sr_count = int (length ?M),
                     sr_results = map sample_of ?M\<rparr>"
    by (simp add: search_text_def l search_loop_value [OF assms(1) lt] f)
  have b: "length ?M = min (nat (st_limit p)) (length (filter (text_matches (st_query p)) ds))"
    by simp
  have c: "int (length ?M) \<le> st_limit p"
    using assms(3) by simp
  have sub: "set ?M \<subseteq> set (filter (text_matches (st_query p)) ds)"
    by (rule set_take_subset)
  have d: "list_all (\<lambda>s. sublist (lower (st_query p)) (lower (s_text s)) \<and>
                       map_of EMOTION_LABELS (s_label_id s) = Some (s_emotion s))
             (map sample_of ?M)"
    unfolding list_all_iff
  proof
    fix s assume "s \<in> set (map sample_of ?M)"
    then obtain r where r: "r \<in> set ?M" and s: "s = sample_of r" by auto
    from r sub have m: "text_matches (st_query p) r" and rd: "r \<in> set ds" by auto
    from rd assms(1) have v: "valid_label (item_label r)"
      by (simp add: valid_dataset_def list_all_iff)
    from m have "sublist (lower (st_query p)) (lower (s_text s))"
      by (simp add: s text_matches_def sample_of_def)
    with sample_of_consistent [OF v] s
    show "sublist (lower (st_query p)) (lower (s_text s)) \<and>
          map_of EMOTION_LABELS (s_label_id s) = Some (s_emotion s)" by simp
  qed
  from a b c d show ?thesis by (intro conjI)
qed

theorem search_text_result_witness:
  "valid_dataset scenario_dataset \<and>
   cache_yields (fixed_source scenario_dataset) initial_world scenario_dataset \<and>
   1 \<le> st_limit \<lparr>st_query = ''Happy'', st_limit = 10\<rparr> \<and>
   fst (search_text (fixed_source scenario_dataset) \<lparr>st_query = ''Happy'', st_limit = 10\<rparr>
          initial_world) =
     Result \<lparr>sr_query = ''Happy'', sr_count = 2,
             sr_results =
               [\<lparr>s_text = ''i am so happy'', s_emotion = ''joy'', s_label_id = 1\<rparr>,
                \<lparr>s_text = ''i am happy again'', s_emotion = ''joy'', s_label_id = 1\<rparr>]\<rparr>"
proof -
  have v: "valid_dataset scenario_dataset"
    by (simp add: valid_dataset_def valid_label_def scenario_dataset_def EMOTION_LABELS_def)
  have h: "cache_yields (fixed_source scenario_dataset) initial_world scenario_dataset"
    by (simp add: cache_yields_def initial_world_def fixed_source_def)
  have l: "1 \<le> st_limit \<lparr>st_query = ''Happy'', st_limit = 10\<rparr>"
    by simp
  have m: "filter (text_matches ''Happy'') scenario_dataset =
             [\<lparr>item_text = ''i am so happy'', item_label = 1\<rparr>,
              \<lparr>item_text = ''i am happy again'', item_label = 1\<rparr>]"
    by code_simp
  have s: "sample_of \<lparr>item_text = ''i am so happy'', item_label = 1\<rparr> =
             \<lparr>s_text = ''i am so happy'', s_emotion = ''joy'', s_label_id = 1\<rparr>"
    "sample_of \<lparr>item_text = ''i am happy again'', item_label = 1\<rparr> =
       \<lparr>s_text = ''i am happy again'', s_emotion = ''joy'', s_label_id = 1\<rparr>"
    by (simp_all add: sample_of_def EMOTION_LABELS_def)
  show ?thesis
    using v h search_text_result [OF v h l] by (simp add: m s)
qed

subsection \<open>get\_sample\<close>

lemma get_sample_loop_value:
  "valid_dataset ds \<Longrightarrow> \<forall>i\<in>set idxs. i < length ds \<Longrightarrow>
     get_sample_loop ds idxs acc = Inr (acc @ map (\<lambda>i. sample_of (ds ! i)) idxs)"
proof (induction idxs arbitrary: acc)
  case Nil
  show ?case by simp
next
  case (Cons i idxs)
  from Cons.prems have i: "i < length ds" and rest: "\<forall>j\<in>set idxs. j < length ds"
    by simp_all
  from i Cons.prems(1) have v: "valid_label (item_label (ds ! i))"
    by (simp add: valid_dataset_def list_all_length)
  show ?case
    by (simp add: dataset_getitem_def i make_sample_valid [OF v] Cons.IH [OF Cons.prems(1) rest])
qed

lemma get_sample_value:
  assumes "valid_dataset ds" and "p_load_dataset ld w = (Inr ds, w')"
    and "rs (length ds) (min (gs_n p) (int (length ds))) = Inr idxs"
    and "\<forall>i\<in>set idxs. i < length ds"
  shows "get_sample rs ld p w = (Result (map (\<lambda>i. sample_of (ds ! i)) idxs), w')"
  by (simp add: get_sample_def assms(2) assms(3) get_sample_loop_value [OF assms(1) assms(4)])

lemma draw_first_contract: "random_sample_contract draw_first"
  by (auto simp: random_sample_contract_def draw_first_def dest: in_set_takeD)

text \<open>
  C4. For every \<open>n\<close> from 1 on (so for every \<open>n\<close> in 1 to 100), on a dataset with
  valid labels, and with a \<^verbatim>\<open>random.sample\<close> that keeps its contract,
  \<^verbatim>\<open>get_sample\<close> returns exactly \<open>min n total_size\<close> items, drawn from distinct
  indices of the dataset, in the order of the draw: the text and the label id of each
  item are those of the record at its index, and the emotion name is the one the label
  mapping gives the label id. On an empty dataset the result is the empty list, not an
  error.
\<close>

theorem get_sample_result:
  assumes "1 \<le> gs_n p" and "valid_dataset ds" and "cache_yields ld w ds"
    and "random_sample_contract rs"
  shows "(\<exists>idxs. fst (get_sample rs ld p w) = Result (map (\<lambda>i. sample_of (ds ! i)) idxs) \<and>
            length (map (\<lambda>i. sample_of (ds ! i)) idxs) = min (nat (gs_n p)) (length ds) \<and>
            distinct idxs \<and>
            (\<forall>i\<in>set idxs. i < length ds \<and>
               s_text (sample_of (ds ! i)) = item_text (ds ! i) \<and>
               s_label_id (sample_of (ds ! i)) = item_label (ds ! i) \<and>
               map_of EMOTION_LABELS (s_label_id (sample_of (ds ! i))) =
                 Some (s_emotion (sample_of (ds ! i))))) \<and>
         (ds = [] \<longrightarrow> fst (get_sample rs ld p w) = Result [])"
proof -
  let ?k = "min (gs_n p) (int (length ds))"
  obtain w' where l: "p_load_dataset ld w = (Inr ds, w')"
    using cache_yields_load [OF assms(3)] by blast
  from assms(1) have k: "0 \<le> ?k \<and> ?k \<le> int (length ds)"
    by simp
  with assms(4) obtain idxs where
    draw: "rs (length ds) ?k = Inr idxs" and len: "length idxs = nat ?k"
    and dist: "distinct idxs" and range: "\<forall>i\<in>set idxs. i < length ds"
    unfolding random_sample_contract_def by blast
  have a: "fst (get_sample rs ld p w) = Result (map (\<lambda>i. sample_of (ds ! i)) idxs)"
    by (simp add: get_sample_value [where rs = rs and p = p, OF assms(2) l draw range])
  have b: "length (map (\<lambda>i. sample_of (ds ! i)) idxs) = min (nat (gs_n p)) (length ds)"
    using assms(1) len by simp
  have c: "\<forall>i\<in>set idxs. i < length ds \<and>
               s_text (sample_of (ds ! i)) = item_text (ds ! i) \<and>
               s_label_id (sample_of (ds ! i)) = item_label (ds ! i) \<and>
               map_of EMOTION_LABELS (s_label_id (sample_of (ds ! i))) =
                 Some (s_emotion (sample_of (ds ! i)))"
  proof
    fix i assume "i \<in> set idxs"
    with range have i: "i < length ds" by simp
    with assms(2) have v: "valid_label (item_label (ds ! i))"
      by (simp add: valid_dataset_def list_all_length)
    from sample_of_consistent [OF v] i
    show "i < length ds \<and>
          s_text (sample_of (ds ! i)) = item_text (ds ! i) \<and>
          s_label_id (sample_of (ds ! i)) = item_label (ds ! i) \<and>
          map_of EMOTION_LABELS (s_label_id (sample_of (ds ! i))) =
            Some (s_emotion (sample_of (ds ! i)))"
      by (simp add: sample_of_def)
  qed
  have d: "ds = [] \<longrightarrow> fst (get_sample rs ld p w) = Result []"
  proof
    assume "ds = []"
    with len have "idxs = []" by simp
    with a show "fst (get_sample rs ld p w) = Result []" by simp
  qed
  from a b dist c d show ?thesis by blast
qed

theorem get_sample_result_witness:
  "1 \<le> gs_n \<lparr>gs_n = 3\<rparr> \<and>
   valid_dataset scenario_dataset \<and>
   cache_yields (fixed_source scenario_dataset) initial_world scenario_dataset \<and>
   random_sample_contract draw_first \<and>
   (\<exists>idxs. fst (get_sample draw_first (fixed_source scenario_dataset) \<lparr>gs_n = 3\<rparr>
                  initial_world) =
             Result (map (\<lambda>i. sample_of (scenario_dataset ! i)) idxs) \<and>
           length (map (\<lambda>i. sample_of (scenario_dataset ! i)) idxs) = 3 \<and>
           distinct idxs \<and> list_all (\<lambda>i. i < 4) idxs) \<and>
   fst (get_sample draw_first (fixed_source scenario_dataset) \<lparr>gs_n = 3\<rparr> initial_world) =
     Result [\<lparr>s_text = ''i am so happy'', s_emotion = ''joy'', s_label_id = 1\<rparr>,
             \<lparr>s_text = ''i feel sad'', s_emotion = ''sadness'', s_label_id = 0\<rparr>,
             \<lparr>s_text = ''i love this'', s_emotion = ''love'', s_label_id = 2\<rparr>] \<and>
   valid_dataset [] \<and> cache_yields (fixed_source []) initial_world [] \<and>
   fst (get_sample draw_first (fixed_source []) \<lparr>gs_n = 3\<rparr> initial_world) = Result []"
proof -
  have n: "length scenario_dataset = 4"
    by (simp add: scenario_dataset_def)
  have t: "take 3 [0..<4] = [0, 1, 2 :: nat]"
    by code_simp
  have h1: "1 \<le> gs_n \<lparr>gs_n = 3\<rparr>"
    by simp
  have v: "valid_dataset scenario_dataset"
    by (simp add: valid_dataset_def valid_label_def scenario_dataset_def EMOTION_LABELS_def)
  have h: "cache_yields (fixed_source scenario_dataset) initial_world scenario_dataset"
    by (simp add: cache_yields_def initial_world_def fixed_source_def)
  have v0: "valid_dataset []"
    by (simp add: valid_dataset_def)
  have h0: "cache_yields (fixed_source []) initial_world []"
    by (simp add: cache_yields_def initial_world_def fixed_source_def)
  note c = draw_first_contract
  from get_sample_result [OF h1 v h c, THEN conjunct1] obtain idxs where
    r: "fst (get_sample draw_first (fixed_source scenario_dataset) \<lparr>gs_n = 3\<rparr>
              initial_world) = Result (map (\<lambda>i. sample_of (scenario_dataset ! i)) idxs)"
    and len: "length (map (\<lambda>i. sample_of (scenario_dataset ! i)) idxs) =
                min (nat (gs_n \<lparr>gs_n = 3\<rparr>)) (length scenario_dataset)"
    and dist: "distinct idxs"
    and range: "\<forall>i\<in>set idxs. i < length scenario_dataset \<and>
               s_text (sample_of (scenario_dataset ! i)) = item_text (scenario_dataset ! i) \<and>
               s_label_id (sample_of (scenario_dataset ! i)) =
                 item_label (scenario_dataset ! i) \<and>
               map_of EMOTION_LABELS (s_label_id (sample_of (scenario_dataset ! i))) =
                 Some (s_emotion (sample_of (scenario_dataset ! i)))"
    by (elim exE conjE) (rule that)
  from len have len3: "length (map (\<lambda>i. sample_of (scenario_dataset ! i)) idxs) = 3"
    by (simp add: n)
  from range have in4: "list_all (\<lambda>i. i < 4) idxs"
    by (simp add: list_all_iff n)
  from r len3 dist in4 have ex:
    "\<exists>idxs. fst (get_sample draw_first (fixed_source scenario_dataset) \<lparr>gs_n = 3\<rparr>
                  initial_world) =
             Result (map (\<lambda>i. sample_of (scenario_dataset ! i)) idxs) \<and>
           length (map (\<lambda>i. sample_of (scenario_dataset ! i)) idxs) = 3 \<and>
           distinct idxs \<and> list_all (\<lambda>i. i < 4) idxs"
    by (intro exI [of _ idxs] conjI)
  have l: "p_load_dataset (fixed_source scenario_dataset) initial_world =
             (Inr scenario_dataset, \<lparr>DATASET = Some scenario_dataset, loads = 1\<rparr>)"
    by (simp add: p_load_dataset_def initial_world_def fixed_source_def)
  have dr: "draw_first (length scenario_dataset)
              (min (gs_n \<lparr>gs_n = 3\<rparr>) (int (length scenario_dataset))) = Inr [0, 1, 2]"
    by (simp add: draw_first_def n t)
  have rg: "\<forall>i\<in>set [0, 1, 2]. i < length scenario_dataset"
    by (simp add: n)
  have s: "map (\<lambda>i. sample_of (scenario_dataset ! i)) [0, 1, 2] =
             [\<lparr>s_text = ''i am so happy'', s_emotion = ''joy'', s_label_id = 1\<rparr>,
              \<lparr>s_text = ''i feel sad'', s_emotion = ''sadness'', s_label_id = 0\<rparr>,
              \<lparr>s_text = ''i love this'', s_emotion = ''love'', s_label_id = 2\<rparr>]"
    by (simp add: scenario_dataset_def sample_of_def EMOTION_LABELS_def)
  have val: "fst (get_sample draw_first (fixed_source scenario_dataset) \<lparr>gs_n = 3\<rparr>
                    initial_world) =
               Result (map (\<lambda>i. sample_of (scenario_dataset ! i)) [0, 1, 2])"
    by (simp only: get_sample_value [where rs = draw_first and p = "\<lparr>gs_n = 3\<rparr>",
          OF v l dr rg] fst_conv)
  have e: "fst (get_sample draw_first (fixed_source []) \<lparr>gs_n = 3\<rparr> initial_world) = Result []"
    using get_sample_result [OF h1 v0 h0 c] by simp
  from h1 v h c ex val [unfolded s] v0 h0 e show ?thesis
    by (intro conjI)
qed

subsection \<open>Errors\<close>

lemma make_sample_invalid:
  "invalid_record r \<Longrightarrow> make_sample r = Inl (KeyError_int (item_label r))"
  by (simp add: make_sample_def EMOTION_LABELS_getitem_def valid_label_def invalid_record_def)

lemma make_sample_valid':
  "\<not> invalid_record r \<Longrightarrow> make_sample r = Inr (sample_of r)"
  by (simp add: make_sample_valid invalid_record_def)

lemma count_loop_invalid:
  "find invalid_record ds = Some r \<Longrightarrow> distinct ns \<Longrightarrow>
     snd ` set EMOTION_LABELS \<subseteq> set ns \<Longrightarrow>
     count_loop ds (map (\<lambda>n. (n, f n)) ns) = Inl (KeyError_int (item_label r))"
proof (induction ds arbitrary: f)
  case Nil
  then show ?case by simp
next
  case (Cons a ds)
  show ?case
  proof (cases "invalid_record a")
    case True
    with Cons.prems(1) have "r = a" by simp
    with True show ?thesis
      by (simp add: EMOTION_LABELS_getitem_def valid_label_def invalid_record_def)
  next
    case False
    with Cons.prems(1) have rest: "find invalid_record ds = Some r" by simp
    from False obtain name where name: "map_of EMOTION_LABELS (item_label a) = Some name"
      by (auto simp: valid_label_def invalid_record_def)
    from name have "(item_label a, name) \<in> set EMOTION_LABELS"
      by (rule map_of_SomeD)
    then have "name \<in> snd ` set EMOTION_LABELS"
      by force
    with Cons.prems(3) have mem: "name \<in> set ns" by blast
    show ?thesis
      by (simp add: EMOTION_LABELS_getitem_def name dict_incr_tabulated [OF Cons.prems(2) mem]
          Cons.IH [OF rest Cons.prems(2) Cons.prems(3)])
  qed
qed

lemma search_loop_invalid:
  "find invalid_record
     (take (nat lmt - length acc) (filter (\<lambda>r. sublist ql (lower (item_text r))) ds)) = Some r \<Longrightarrow>
   int (length acc) < lmt \<Longrightarrow>
   search_loop ql lmt ds acc = Inl (KeyError_int (item_label r))"
proof (induction ds arbitrary: acc)
  case Nil
  then show ?case by simp
next
  case (Cons a ds)
  show ?case
  proof (cases "sublist ql (lower (item_text a))")
    case False
    with Cons.prems Cons.IH [of acc] show ?thesis by simp
  next
    case True
    from Cons.prems(2) obtain k where k: "nat lmt - length acc = Suc k"
      by (cases "nat lmt - length acc") auto
    show ?thesis
    proof (cases "invalid_record a")
      case bad: True
      with True k Cons.prems(1) have "r = a" by simp
      with True bad show ?thesis by (simp add: make_sample_invalid)
    next
      case good: False
      with True k Cons.prems(1) have rest:
        "find invalid_record (take k (filter (\<lambda>r. sublist ql (lower (item_text r))) ds)) = Some r"
        by simp
      then have "k \<noteq> 0" by (cases k) auto
      with k have room: "\<not> lmt \<le> int (length acc) + 1" by linarith
      then have lt: "int (length (acc @ [sample_of a])) < lmt" by simp
      have kk: "nat lmt - length (acc @ [sample_of a]) = k"
        using k by simp
      from rest have rest': "find invalid_record
          (take (nat lmt - length (acc @ [sample_of a]))
             (filter (\<lambda>r. sublist ql (lower (item_text r))) ds)) = Some r"
        by (simp only: kk)
      from True room Cons.IH [OF rest' lt] show ?thesis
        by (simp add: make_sample_valid' [OF good])
    qed
  qed
qed

lemma get_sample_loop_invalid:
  "find invalid_record (map ((!) ds) idxs) = Some r \<Longrightarrow> \<forall>i\<in>set idxs. i < length ds \<Longrightarrow>
     get_sample_loop ds idxs acc = Inl (KeyError_int (item_label r))"
proof (induction idxs arbitrary: acc)
  case Nil
  then show ?case by simp
next
  case (Cons i idxs)
  from Cons.prems(2) have i: "i < length ds" and rest: "\<forall>j\<in>set idxs. j < length ds"
    by simp_all
  show ?case
  proof (cases "invalid_record (ds ! i)")
    case True
    with Cons.prems(1) have "r = ds ! i" by simp
    with True show ?thesis
      by (simp add: dataset_getitem_def i make_sample_invalid)
  next
    case False
    with Cons.prems(1) have f: "find invalid_record (map ((!) ds) idxs) = Some r" by simp
    show ?thesis
      by (simp add: dataset_getitem_def i make_sample_valid' [OF False] Cons.IH [OF f rest])
  qed
qed

lemma load_fails:
  "DATASET w = None \<Longrightarrow> ld (loads w) = Inl e \<Longrightarrow>
     p_load_dataset ld w = (Inl e, w\<lparr>loads := Suc (loads w)\<rparr>)"
  by (simp add: p_load_dataset_def)

lemma count_loop_init_invalid:
  assumes "find invalid_record ds = Some r"
  shows "count_loop ds emotion_counts_init = Inl (KeyError_int (item_label r))"
proof -
  have d: "distinct (map snd EMOTION_LABELS)"
    by (simp add: EMOTION_LABELS_def)
  have s: "snd ` set EMOTION_LABELS \<subseteq> set (map snd EMOTION_LABELS)"
    by simp
  show ?thesis
    unfolding emotion_counts_init_value
    by (rule count_loop_invalid [OF assms d s])
qed

text \<open>
  C5, as stated, fails: a parameter that fails validation is not returned as an
  \<^verbatim>\<open>{"error": message}\<close> payload. \<^verbatim>\<open>GetSampleInput(n=101)\<close> raises the validation
  error before \<^verbatim>\<open>get_sample\<close> is entered, so the \<^verbatim>\<open>try\<close> of the tool never sees it
  and the call raises.
\<close>

theorem validation_error_is_raised:
  "fst (call_get_sample draw_first (fixed_source scenario_dataset) 101 initial_world) =
     Raised (ValidationError [''n''])"
  by (simp add: call_get_sample_def GetSampleInput_init_def)

text \<open>
  C5, amended. Every error that occurs while the body of an operation runs is caught
  and returned as the payload \<^verbatim>\<open>{"error": message}\<close>, with no partial result beside
  it: a failure to load (all four operations), an exception of \<^verbatim>\<open>random.sample\<close>,
  and an unknown label code met by \<^verbatim>\<open>get_sample\<close>, \<^verbatim>\<open>search_text\<close> or
  \<^verbatim>\<open>analyze_emotion_distribution\<close> (the message names the first such label). A call
  raises exactly when the input model rejects its arguments, with the validation error
  of the model; \<^verbatim>\<open>analyze_emotion_distribution\<close>, which has no arguments, never raises.
\<close>

theorem body_errors_become_payloads:
  "(DATASET w = None \<and> ld (loads w) = Inl e \<longrightarrow>
      fst (get_sample rs ld p1 w) = Error_payload (Failed ''Failed to get samples: '' e) \<and>
      fst (count_by_emotion fo ld p2 w) =
        Error_payload (Failed ''Failed to count by emotion: '' e) \<and>
      fst (search_text ld p3 w) = Error_payload (Failed ''Failed to search text: '' e) \<and>
      fst (analyze_emotion_distribution fo ld w) =
        Error_payload (Failed ''Failed to analyze distribution: '' e)) \<and>
   (cache_yields ld w ds \<and> rs (length ds) (min (gs_n p1) (int (length ds))) = Inl e \<longrightarrow>
      fst (get_sample rs ld p1 w) = Error_payload (Failed ''Failed to get samples: '' e)) \<and>
   (cache_yields ld w ds \<and> rs (length ds) (min (gs_n p1) (int (length ds))) = Inr idxs \<and>
    (\<forall>i\<in>set idxs. i < length ds) \<and> find invalid_record (map ((!) ds) idxs) = Some r \<longrightarrow>
      fst (get_sample rs ld p1 w) =
        Error_payload (Failed ''Failed to get samples: '' (KeyError_int (item_label r)))) \<and>
   (cache_yields ld w ds \<and> 1 \<le> st_limit p3 \<and>
    find invalid_record
      (take (nat (st_limit p3)) (filter (text_matches (st_query p3)) ds)) = Some r \<longrightarrow>
      fst (search_text ld p3 w) =
        Error_payload (Failed ''Failed to search text: '' (KeyError_int (item_label r)))) \<and>
   (cache_yields ld w ds \<and> find invalid_record ds = Some r \<longrightarrow>
      fst (analyze_emotion_distribution fo ld w) =
        Error_payload
          (Failed ''Failed to analyze distribution: '' (KeyError_int (item_label r)))) \<and>
   ((fst (call_get_sample rs ld n w) = Raised x) = (GetSampleInput_init n = Inl x)) \<and>
   ((fst (call_count_by_emotion fo ld s w) = Raised x) = (CountByEmotionInput_init s = Inl x)) \<and>
   ((fst (call_search_text ld q l w) = Raised x) = (SearchTextInput_init q l = Inl x)) \<and>
   fst (call_analyze_emotion_distribution fo ld w) \<noteq> Raised x"
proof -
  have a: "DATASET w = None \<and> ld (loads w) = Inl e \<longrightarrow>
      fst (get_sample rs ld p1 w) = Error_payload (Failed ''Failed to get samples: '' e) \<and>
      fst (count_by_emotion fo ld p2 w) =
        Error_payload (Failed ''Failed to count by emotion: '' e) \<and>
      fst (search_text ld p3 w) = Error_payload (Failed ''Failed to search text: '' e) \<and>
      fst (analyze_emotion_distribution fo ld w) =
        Error_payload (Failed ''Failed to analyze distribution: '' e)"
    by (simp add: get_sample_def count_by_emotion_def search_text_def
        analyze_emotion_distribution_def load_fails)
  have b: "cache_yields ld w ds \<and> rs (length ds) (min (gs_n p1) (int (length ds))) = Inl e \<longrightarrow>
      fst (get_sample rs ld p1 w) = Error_payload (Failed ''Failed to get samples: '' e)"
  proof
    assume h: "cache_yields ld w ds \<and> rs (length ds) (min (gs_n p1) (int (length ds))) = Inl e"
    then obtain w' where l: "p_load_dataset ld w = (Inr ds, w')"
      using cache_yields_load by blast
    from h show "fst (get_sample rs ld p1 w) =
        Error_payload (Failed ''Failed to get samples: '' e)"
      by (simp add: get_sample_def l)
  qed
  have c: "cache_yields ld w ds \<and> rs (length ds) (min (gs_n p1) (int (length ds))) = Inr idxs \<and>
    (\<forall>i\<in>set idxs. i < length ds) \<and> find invalid_record (map ((!) ds) idxs) = Some r \<longrightarrow>
      fst (get_sample rs ld p1 w) =
        Error_payload (Failed ''Failed to get samples: '' (KeyError_int (item_label r)))"
  proof
    assume h: "cache_yields ld w ds \<and>
      rs (length ds) (min (gs_n p1) (int (length ds))) = Inr idxs \<and>
      (\<forall>i\<in>set idxs. i < length ds) \<and> find invalid_record (map ((!) ds) idxs) = Some r"
    then obtain w' where l: "p_load_dataset ld w = (Inr ds, w')"
      using cache_yields_load by blast
    from h have "get_sample_loop ds idxs [] = Inl (KeyError_int (item_label r))"
      by (intro get_sample_loop_invalid) simp_all
    with h show "fst (get_sample rs ld p1 w) =
        Error_payload (Failed ''Failed to get samples: '' (KeyError_int (item_label r)))"
      by (simp add: get_sample_def l)
  qed
  have d: "cache_yields ld w ds \<and> 1 \<le> st_limit p3 \<and>
    find invalid_record
      (take (nat (st_limit p3)) (filter (text_matches (st_query p3)) ds)) = Some r \<longrightarrow>
      fst (search_text ld p3 w) =
        Error_payload (Failed ''Failed to search text: '' (KeyError_int (item_label r)))"
  proof
    assume h: "cache_yields ld w ds \<and> 1 \<le> st_limit p3 \<and>
      find invalid_record
        (take (nat (st_limit p3)) (filter (text_matches (st_query p3)) ds)) = Some r"
    then obtain w' where l: "p_load_dataset ld w = (Inr ds, w')"
      using cache_yields_load by blast
    have f: "(\<lambda>r. sublist (lower (st_query p3)) (lower (item_text r))) =
               text_matches (st_query p3)"
      by (simp add: text_matches_def fun_eq_iff)
    from h have "search_loop (lower (st_query p3)) (st_limit p3) ds [] =
        Inl (KeyError_int (item_label r))"
      by (intro search_loop_invalid) (simp_all add: f)
    then show "fst (search_text ld p3 w) =
        Error_payload (Failed ''Failed to search text: '' (KeyError_int (item_label r)))"
      by (simp add: search_text_def l)
  qed
  have g: "cache_yields ld w ds \<and> find invalid_record ds = Some r \<longrightarrow>
      fst (analyze_emotion_distribution fo ld w) =
        Error_payload
          (Failed ''Failed to analyze distribution: '' (KeyError_int (item_label r)))"
  proof
    assume h: "cache_yields ld w ds \<and> find invalid_record ds = Some r"
    then obtain w' where l: "p_load_dataset ld w = (Inr ds, w')"
      using cache_yields_load by blast
    from h have "count_loop ds emotion_counts_init = Inl (KeyError_int (item_label r))"
      by (intro count_loop_init_invalid) simp
    then show "fst (analyze_emotion_distribution fo ld w) =
        Error_payload
          (Failed ''Failed to analyze distribution: '' (KeyError_int (item_label r)))"
      by (simp add: analyze_emotion_distribution_def l)
  qed
  have v1: "(fst (call_get_sample rs ld n w) = Raised x) = (GetSampleInput_init n = Inl x)"
    by (simp add: call_get_sample_def split: sum.splits prod.splits)
  have v2: "(fst (call_count_by_emotion fo ld s w) = Raised x) =
      (CountByEmotionInput_init s = Inl x)"
    by (simp add: call_count_by_emotion_def split: sum.splits prod.splits)
  have v3: "(fst (call_search_text ld q l w) = Raised x) = (SearchTextInput_init q l = Inl x)"
    by (simp add: call_search_text_def split: sum.splits prod.splits)
  have v4: "fst (call_analyze_emotion_distribution fo ld w) \<noteq> Raised x"
    by (simp add: call_analyze_emotion_distribution_def split: prod.splits)
  from a b c d g v1 v2 v3 v4 show ?thesis by (intro conjI)
qed

theorem body_errors_become_payloads_witness:
  "(DATASET initial_world = None \<and>
    failing_source (loads initial_world) = Inl (External ''source unavailable'') \<and>
    fst (get_sample draw_first failing_source \<lparr>gs_n = 3\<rparr> initial_world) =
      Error_payload (Failed ''Failed to get samples: '' (External ''source unavailable'')) \<and>
    fst (count_by_emotion exact_ops failing_source \<lparr>ce_emotion = JOY\<rparr> initial_world) =
      Error_payload (Failed ''Failed to count by emotion: '' (External ''source unavailable'')) \<and>
    fst (search_text failing_source \<lparr>st_query = ''happy'', st_limit = 10\<rparr> initial_world) =
      Error_payload (Failed ''Failed to search text: '' (External ''source unavailable'')) \<and>
    fst (analyze_emotion_distribution exact_ops failing_source initial_world) =
      Error_payload
        (Failed ''Failed to analyze distribution: '' (External ''source unavailable''))) \<and>
   (cache_yields (fixed_source corrupt_dataset) initial_world corrupt_dataset \<and>
    draw_fails (length corrupt_dataset) (min (gs_n \<lparr>gs_n = 3\<rparr>) (int (length corrupt_dataset))) =
      Inl (External ''Sample larger than population or is negative'') \<and>
    fst (get_sample draw_fails (fixed_source corrupt_dataset) \<lparr>gs_n = 3\<rparr> initial_world) =
      Error_payload (Failed ''Failed to get samples: ''
        (External ''Sample larger than population or is negative''))) \<and>
   (draw_first (length corrupt_dataset) (min (gs_n \<lparr>gs_n = 3\<rparr>) (int (length corrupt_dataset))) =
      Inr [0, 1] \<and>
    list_all (\<lambda>i. i < length corrupt_dataset) [0, 1] \<and>
    find invalid_record (map ((!) corrupt_dataset) [0, 1]) =
      Some \<lparr>item_text = ''i am happy again'', item_label = 7\<rparr> \<and>
    fst (get_sample draw_first (fixed_source corrupt_dataset) \<lparr>gs_n = 3\<rparr> initial_world) =
      Error_payload (Failed ''Failed to get samples: '' (KeyError_int 7))) \<and>
   (1 \<le> st_limit \<lparr>st_query = ''happy'', st_limit = 10\<rparr> \<and>
    find invalid_record
      (take (nat (st_limit \<lparr>st_query = ''happy'', st_limit = 10\<rparr>))
         (filter (text_matches (st_query \<lparr>st_query = ''happy'', st_limit = 10\<rparr>))
            corrupt_dataset)) =
      Some \<lparr>item_text = ''i am happy again'', item_label = 7\<rparr> \<and>
    fst (search_text (fixed_source corrupt_dataset) \<lparr>st_query = ''happy'', st_limit = 10\<rparr>
           initial_world) =
      Error_payload (Failed ''Failed to search text: '' (KeyError_int 7))) \<and>
   (find invalid_record corrupt_dataset =
      Some \<lparr>item_text = ''i am happy again'', item_label = 7\<rparr> \<and>
    fst (analyze_emotion_distribution exact_ops (fixed_source corrupt_dataset) initial_world) =
      Error_payload (Failed ''Failed to analyze distribution: '' (KeyError_int 7)))"
proof -
  let ?bad = "\<lparr>item_text = ''i am happy again'', item_label = 7\<rparr>"
  let ?p1 = "\<lparr>gs_n = 3\<rparr>"
  let ?p3 = "\<lparr>st_query = ''happy'', st_limit = 10\<rparr>"
  note t1 = body_errors_become_payloads [where w = initial_world and ld = failing_source
      and e = "External ''source unavailable''" and rs = draw_first and ?p1.0 = ?p1
      and fo = exact_ops and ?p2.0 = "\<lparr>ce_emotion = JOY\<rparr>" and ?p3.0 = ?p3]
  note t2 = body_errors_become_payloads [where w = initial_world
      and ld = "fixed_source corrupt_dataset" and ds = corrupt_dataset
      and e = "External ''Sample larger than population or is negative''"
      and rs = draw_fails and ?p1.0 = ?p1]
  note t3 = body_errors_become_payloads [where w = initial_world
      and ld = "fixed_source corrupt_dataset" and ds = corrupt_dataset
      and rs = draw_first and ?p1.0 = ?p1 and ?p3.0 = ?p3 and fo = exact_ops
      and idxs = "[0, 1]" and r = ?bad]
  have n: "length corrupt_dataset = 2"
    by (simp add: corrupt_dataset_def)
  have h1: "DATASET initial_world = None \<and>
      failing_source (loads initial_world) = Inl (External ''source unavailable'')"
    by (simp add: initial_world_def failing_source_def)
  have c: "cache_yields (fixed_source corrupt_dataset) initial_world corrupt_dataset"
    by (simp add: cache_yields_def initial_world_def fixed_source_def)
  have h2: "draw_fails (length corrupt_dataset)
      (min (gs_n ?p1) (int (length corrupt_dataset))) =
        Inl (External ''Sample larger than population or is negative'')"
    by (simp add: draw_fails_def)
  have tk: "take 2 [0..<2] = [0, 1 :: nat]"
    by code_simp
  have h3: "draw_first (length corrupt_dataset)
      (min (gs_n ?p1) (int (length corrupt_dataset))) = Inr [0, 1]"
    by (simp add: draw_first_def n tk)
  have h4: "\<forall>i\<in>set [0, 1]. i < length corrupt_dataset"
    by (simp add: n)
  have iv: "\<not> invalid_record \<lparr>item_text = ''i am so happy'', item_label = 1\<rparr>"
    "invalid_record ?bad"
    by (simp_all add: invalid_record_def valid_label_def EMOTION_LABELS_def)
  have h5: "find invalid_record (map ((!) corrupt_dataset) [0, 1]) = Some ?bad"
    by (simp add: corrupt_dataset_def iv)
  have h6: "1 \<le> st_limit ?p3"
    by simp
  have m: "filter (text_matches ''happy'') corrupt_dataset = corrupt_dataset"
    by code_simp
  have h7: "find invalid_record
      (take (nat (st_limit ?p3)) (filter (text_matches (st_query ?p3)) corrupt_dataset)) =
        Some ?bad"
    by (simp add: m) (simp add: corrupt_dataset_def iv)
  have h8: "find invalid_record corrupt_dataset = Some ?bad"
    by (simp add: corrupt_dataset_def iv)
  have k: "item_label ?bad = 7"
    by simp
  have r1: "fst (get_sample draw_first failing_source ?p1 initial_world) =
      Error_payload (Failed ''Failed to get samples: '' (External ''source unavailable'')) \<and>
    fst (count_by_emotion exact_ops failing_source \<lparr>ce_emotion = JOY\<rparr> initial_world) =
      Error_payload (Failed ''Failed to count by emotion: '' (External ''source unavailable'')) \<and>
    fst (search_text failing_source ?p3 initial_world) =
      Error_payload (Failed ''Failed to search text: '' (External ''source unavailable'')) \<and>
    fst (analyze_emotion_distribution exact_ops failing_source initial_world) =
      Error_payload
        (Failed ''Failed to analyze distribution: '' (External ''source unavailable''))"
    using t1 [THEN conjunct1] h1 by (rule mp)
  have r2: "fst (get_sample draw_fails (fixed_source corrupt_dataset) ?p1 initial_world) =
      Error_payload (Failed ''Failed to get samples: ''
        (External ''Sample larger than population or is negative''))"
    using t2 [THEN conjunct2, THEN conjunct1] c h2 by blast
  have r3: "fst (get_sample draw_first (fixed_source corrupt_dataset) ?p1 initial_world) =
      Error_payload (Failed ''Failed to get samples: '' (KeyError_int 7))"
    using t3 [THEN conjunct2, THEN conjunct2, THEN conjunct1] c h3 h4 h5 unfolding k by blast
  have r4: "fst (search_text (fixed_source corrupt_dataset) ?p3 initial_world) =
      Error_payload (Failed ''Failed to search text: '' (KeyError_int 7))"
    using t3 [THEN conjunct2, THEN conjunct2, THEN conjunct2, THEN conjunct1] c h6 h7
    unfolding k by blast
  have r5: "fst (analyze_emotion_distribution exact_ops (fixed_source corrupt_dataset)
      initial_world) = Error_payload (Failed ''Failed to analyze distribution: '' (KeyError_int 7))"
    using t3 [THEN conjunct2, THEN conjunct2, THEN conjunct2, THEN conjunct2, THEN conjunct1]
      c h8 unfolding k by blast
  have h9: "list_all (\<lambda>i. i < length corrupt_dataset) [0, 1]"
    by (simp add: n)
  from h1 r1 c h2 r2 h3 h9 h5 r3 h6 h7 r4 h8 r5 show ?thesis
    by (intro conjI) (simp_all only:)
qed

end
